theory Spec2Isabelle
  imports Complex_Main "HOL-Library.Word" "HOL-Library.Log_Nat"
begin

unbundle bit_operations_syntax

section \<open>Errors and shared constants\<close>

text \<open>
  Python integers are unbounded, so every integer of the verification library is an
  \<^typ>\<open>int\<close>; the bitwise operators of Python on negative integers act on the
  infinite two's complement representation, exactly as \<open>AND\<close>, \<open>OR\<close>, \<open>XOR\<close>,
  \<open>push_bit\<close> and \<open>drop_bit\<close> do on \<^typ>\<open>int\<close>.

  Every exception the modelled code can raise is a value. An \<open>AssertionError\<close>
  carries what its message reports.
\<close>

datatype assertion =
    AddressMismatch int int          \<comment> \<open>got, expected\<close>
  | DataMismatch int int int         \<comment> \<open>address, got, expected\<close>
  | UnexpectedWrite int int int      \<comment> \<open>address, data, byte-enable mask\<close>
  | CompressedRegister int           \<comment> \<open>register outside x8..x15\<close>
  | OperandRange                     \<comment> \<open>a range assertion of an encoder\<close>
  | ExponentCalc                     \<comment> \<open>the exponent check of the FMA rounding\<close>

datatype error =
    ValidationError string
  | AssertionError assertion
  | IndexError
  | ValueError
  | OverflowError
  | ZeroDivisionError
  | EncodingError

definition MASK32 :: int where
  "MASK32 = 0xFFFFFFFF"

section \<open>utils/riscv\_utils.py\<close>

text \<open>
  \<^verbatim>\<open>sign = 1 << (bits - 1); return (val & (sign - 1)) - (val & sign)\<close>.
  A negative shift count raises \<open>ValueError\<close> in Python.
\<close>

definition sign_extend :: "int \<Rightarrow> int \<Rightarrow> error + int" where
  "sign_extend val bits =
     (if bits - 1 < 0 then Inl ValueError
      else let sign = push_bit (nat (bits - 1)) (1::int)
           in Inr ((val AND (sign - 1)) - (val AND sign)))"

definition to_signed32 :: "int \<Rightarrow> error + int" where
  "to_signed32 val = sign_extend (val AND MASK32) 32"

definition to_unsigned32 :: "int \<Rightarrow> int" where
  "to_unsigned32 val = val AND MASK32"

section \<open>models/branch\_model.py\<close>

definition branch_taken_decision :: "string \<Rightarrow> int \<Rightarrow> int \<Rightarrow> error + bool" where
  "branch_taken_decision operation operand_a operand_b =
     (if operation = ''beq'' then Inr (operand_a = operand_b)
      else if operation = ''bne'' then Inr (operand_a \<noteq> operand_b)
      else if operation = ''blt'' then
        (case to_signed32 operand_a of Inl e \<Rightarrow> Inl e | Inr sa \<Rightarrow>
         (case to_signed32 operand_b of Inl e \<Rightarrow> Inl e | Inr sb \<Rightarrow> Inr (sa < sb)))
      else if operation = ''bge'' then
        (case to_signed32 operand_a of Inl e \<Rightarrow> Inl e | Inr sa \<Rightarrow>
         (case to_signed32 operand_b of Inl e \<Rightarrow> Inl e | Inr sb \<Rightarrow> Inr (sa \<ge> sb)))
      else if operation = ''bltu'' then Inr ((operand_a AND MASK32) < (operand_b AND MASK32))
      else if operation = ''bgeu'' then Inr ((operand_a AND MASK32) \<ge> (operand_b AND MASK32))
      else Inl (ValidationError operation))"

section \<open>models/memory\_model.py\<close>

text \<open>
  The constants \<open>MEMORY_ADDRESS_MASK\<close> and \<open>MEMORY_WORD_ALIGN_MASK\<close> come from the
  module \<open>config\<close>, which is not among the sources: they are parameters of the model.
\<close>

record config =
  MEMORY_ADDRESS_MASK :: int
  MEMORY_WORD_ALIGN_MASK :: int

text \<open>The attributes of \<open>MemoryModel\<close> that the model functions use.\<close>

record MemoryModel =
  read_address :: int
  ram_bytes :: "int \<rightharpoonup> int"

definition read_byte :: "config \<Rightarrow> MemoryModel \<Rightarrow> int \<Rightarrow> int" where
  "read_byte cfg self address =
     (case ram_bytes self (address AND MEMORY_ADDRESS_MASK cfg) of
        None \<Rightarrow> 0 | Some b \<Rightarrow> b)"

definition write_byte :: "config \<Rightarrow> MemoryModel \<Rightarrow> int \<Rightarrow> int \<Rightarrow> MemoryModel" where
  "write_byte cfg self address val =
     self\<lparr>ram_bytes := (ram_bytes self)(address AND MEMORY_ADDRESS_MASK cfg \<mapsto> val AND 0xFF)\<rparr>"

definition read_word :: "config \<Rightarrow> MemoryModel \<Rightarrow> int \<Rightarrow> int" where
  "read_word cfg self address =
     (let aligned_address = address AND MEMORY_WORD_ALIGN_MASK cfg
      in read_byte cfg self aligned_address
         OR push_bit 8 (read_byte cfg self (aligned_address + 1))
         OR push_bit 16 (read_byte cfg self (aligned_address + 2))
         OR push_bit 24 (read_byte cfg self (aligned_address + 3)))"

definition write_word :: "config \<Rightarrow> MemoryModel \<Rightarrow> int \<Rightarrow> int \<Rightarrow> MemoryModel" where
  "write_word cfg self address val =
     (let aligned_address = address AND MEMORY_WORD_ALIGN_MASK cfg;
          s1 = write_byte cfg self aligned_address (val AND 0xFF);
          s2 = write_byte cfg s1 (aligned_address + 1) (drop_bit 8 val AND 0xFF);
          s3 = write_byte cfg s2 (aligned_address + 2) (drop_bit 16 val AND 0xFF)
      in write_byte cfg s3 (aligned_address + 3) (drop_bit 24 val AND 0xFF))"

text \<open>
  The constructor starts from an empty dictionary and writes the words of the hardware
  memory, word \<open>i\<close> at byte address \<open>4 * i\<close>; the list \<open>dut_words\<close> holds the
  \<open>MEMORY_SIZE_WORDS\<close> words read from the design.
\<close>

definition empty_memory :: MemoryModel where
  "empty_memory = \<lparr>read_address = 0, ram_bytes = Map.empty\<rparr>"

fun init_words :: "config \<Rightarrow> MemoryModel \<Rightarrow> int \<Rightarrow> int list \<Rightarrow> MemoryModel" where
  "init_words cfg self word_index [] = self"
| "init_words cfg self word_index (w # ws) =
     init_words cfg (write_word cfg self (word_index * 4) w) (word_index + 1) ws"

definition MemoryModel_init :: "config \<Rightarrow> int list \<Rightarrow> MemoryModel" where
  "MemoryModel_init cfg dut_words = init_words cfg empty_memory 0 dut_words"

text \<open>
  A history of stores on a memory model, to speak about the addresses that were written
  and about every state the model can reach.
\<close>

datatype mem_op = WriteByte int int | WriteWord int int

fun apply_mem_op :: "config \<Rightarrow> MemoryModel \<Rightarrow> mem_op \<Rightarrow> MemoryModel" where
  "apply_mem_op cfg self (WriteByte a v) = write_byte cfg self a v"
| "apply_mem_op cfg self (WriteWord a v) = write_word cfg self a v"

fun written_keys :: "config \<Rightarrow> mem_op \<Rightarrow> int list" where
  "written_keys cfg (WriteByte a v) = [a AND MEMORY_ADDRESS_MASK cfg]"
| "written_keys cfg (WriteWord a v) =
     (let aligned_address = a AND MEMORY_WORD_ALIGN_MASK cfg
      in [aligned_address AND MEMORY_ADDRESS_MASK cfg,
          (aligned_address + 1) AND MEMORY_ADDRESS_MASK cfg,
          (aligned_address + 2) AND MEMORY_ADDRESS_MASK cfg,
          (aligned_address + 3) AND MEMORY_ADDRESS_MASK cfg])"

definition run_mem_ops :: "config \<Rightarrow> MemoryModel \<Rightarrow> mem_op list \<Rightarrow> MemoryModel" where
  "run_mem_ops cfg self ops = foldl (apply_mem_op cfg) self ops"

text \<open>The invariant of the dictionary: keys are masked addresses, values are bytes.\<close>

definition ram_inv :: "config \<Rightarrow> MemoryModel \<Rightarrow> bool" where
  "ram_inv cfg self \<longleftrightarrow>
     (\<forall>k b. ram_bytes self k = Some b \<longrightarrow>
        k = k AND MEMORY_ADDRESS_MASK cfg \<and> 0 \<le> b \<and> b \<le> 255)"

subsection \<open>The memory-write monitor\<close>

text \<open>
  One pass through the body of the monitoring loop of \<open>driver_and_monitor\<close>, after the
  two clock edges: the three output signals of the design are sampled, and the two
  expected-value queues (Python lists, oldest entry first) are mutated in place. The
  result is the exception raised, if any, and the queues as the pass leaves them.
\<close>

record dut_sample =
  o_data_mem_per_byte_wr_en :: int
  o_data_mem_addr :: int
  o_data_mem_wr_data :: int

definition monitor_step ::
  "dut_sample \<Rightarrow> int list \<times> int list \<Rightarrow> error option \<times> (int list \<times> int list)" where
  "monitor_step s q =
     (let write_data_expected_queue = fst q;
          write_address_expected_queue = snd q;
          wr_mask = o_data_mem_per_byte_wr_en s AND 0xF
      in if wr_mask \<noteq> 0 then
           (let wr_addr = o_data_mem_addr s AND MASK32;
                wr_data = o_data_mem_wr_data s AND MASK32
            in case write_address_expected_queue of
                 exp_addr # addr_rest \<Rightarrow>
                   (case write_data_expected_queue of
                      [] \<Rightarrow> (Some IndexError, ([], addr_rest))
                    | exp_data # data_rest \<Rightarrow>
                        if wr_addr \<noteq> exp_addr
                        then (Some (AssertionError (AddressMismatch wr_addr exp_addr)),
                              (data_rest, addr_rest))
                        else if wr_data \<noteq> exp_data
                        then (Some (AssertionError (DataMismatch wr_addr wr_data exp_data)),
                              (data_rest, addr_rest))
                        else (None, (data_rest, addr_rest)))
               | [] \<Rightarrow>
                   (Some (AssertionError (UnexpectedWrite wr_addr wr_data wr_mask)),
                    (write_data_expected_queue, write_address_expected_queue)))
         else (None, (write_data_expected_queue, write_address_expected_queue)))"

text \<open>
  The loop itself, over the samples of successive cycles: it stops at the first
  exception and otherwise goes on for as long as samples arrive.
\<close>

fun monitor_loop ::
  "dut_sample list \<Rightarrow> int list \<times> int list \<Rightarrow> error option \<times> (int list \<times> int list)" where
  "monitor_loop [] q = (None, q)"
| "monitor_loop (s # ss) q =
     (case monitor_step s q of
        (Some e, q') \<Rightarrow> (Some e, q')
      | (None, q') \<Rightarrow> monitor_loop ss q')"

section \<open>Concrete inputs\<close>

text \<open>Sample configurations and signal values, for evaluating the models.\<close>

definition cfg0 :: config where
  "cfg0 = \<lparr>MEMORY_ADDRESS_MASK = 0xFFFF, MEMORY_WORD_ALIGN_MASK = 0xFFFFFFFC\<rparr>"

definition sample0 :: dut_sample where
  "sample0 = \<lparr>o_data_mem_per_byte_wr_en = 0xF, o_data_mem_addr = 0x100,
              o_data_mem_wr_data = 0xDEADBEEF\<rparr>"

section \<open>models/fp\_model.py: bit patterns\<close>

definition FP_POS_ZERO :: int where "FP_POS_ZERO = 0x00000000"
definition FP_NEG_ZERO :: int where "FP_NEG_ZERO = 0x80000000"
definition FP_POS_INF :: int where "FP_POS_INF = 0x7F800000"
definition FP_NEG_INF :: int where "FP_NEG_INF = 0xFF800000"
definition FP_CANONICAL_NAN :: int where "FP_CANONICAL_NAN = 0x7FC00000"

definition FP_SIGN_MASK :: int where "FP_SIGN_MASK = 0x80000000"
definition FP_EXP_MASK :: int where "FP_EXP_MASK = 0x7F800000"
definition FP_MANT_MASK :: int where "FP_MANT_MASK = 0x007FFFFF"

definition is_nan :: "int \<Rightarrow> bool" where
  "is_nan bits =
     (let exp = drop_bit 23 (bits AND FP_EXP_MASK);
          mant = bits AND FP_MANT_MASK
      in exp = 0xFF \<and> mant \<noteq> 0)"

definition is_inf :: "int \<Rightarrow> bool" where
  "is_inf bits =
     (let exp = drop_bit 23 (bits AND FP_EXP_MASK);
          mant = bits AND FP_MANT_MASK
      in exp = 0xFF \<and> mant = 0)"

definition is_zero :: "int \<Rightarrow> bool" where
  "is_zero bits \<longleftrightarrow> (bits AND 0x7FFFFFFF) = 0"

definition is_subnormal :: "int \<Rightarrow> bool" where
  "is_subnormal bits =
     (let exp = drop_bit 23 (bits AND FP_EXP_MASK);
          mant = bits AND FP_MANT_MASK
      in exp = 0 \<and> mant \<noteq> 0)"

definition is_negative :: "int \<Rightarrow> bool" where
  "is_negative bits \<longleftrightarrow> (bits AND FP_SIGN_MASK) \<noteq> 0"

definition canonicalize_nan :: "int \<Rightarrow> int" where
  "canonicalize_nan bits = (if is_nan bits then FP_CANONICAL_NAN else bits)"

subsection \<open>Classification\<close>

definition fclass_s :: "int \<Rightarrow> int" where
  "fclass_s rs1_bits =
     (let sign = is_negative rs1_bits;
          exp = drop_bit 23 (rs1_bits AND FP_EXP_MASK);
          mant = rs1_bits AND FP_MANT_MASK
      in if exp = 0xFF then
           (if mant = 0 then (if sign then 1 else 0x80)
            else if mant AND 0x00400000 \<noteq> 0 then 0x200
            else 0x100)
         else if exp = 0 then
           (if mant = 0 then (if sign then 8 else 0x10)
            else (if sign then 4 else 0x20))
         else (if sign then 2 else 0x40))"

text \<open>
  The ten categories of a binary32 datum, read off the three fields of its encoding
  \<open>n = sign * 2^31 + exponent * 2^23 + fraction\<close>: an all-ones exponent is an infinity
  (fraction zero) or a NaN (quiet when the top fraction bit is set), a zero exponent is
  a zero or a subnormal number, every other exponent a normal number. Each category has
  its bit position in the result of \<open>FCLASS.S\<close>.
\<close>

datatype fp_category =
    NegInf | NegNormal | NegSubnormal | NegZero | PosZero
  | PosSubnormal | PosNormal | PosInf | SignalingNaN | QuietNaN

definition ieee_sign :: "32 word \<Rightarrow> nat" where
  "ieee_sign w = unat w div 2 ^ 31"

definition ieee_exponent :: "32 word \<Rightarrow> nat" where
  "ieee_exponent w = (unat w div 2 ^ 23) mod 2 ^ 8"

definition ieee_fraction :: "32 word \<Rightarrow> nat" where
  "ieee_fraction w = unat w mod 2 ^ 23"

definition ieee_category :: "32 word \<Rightarrow> fp_category" where
  "ieee_category w =
     (if ieee_exponent w = 255 then
        (if ieee_fraction w = 0 then (if ieee_sign w = 1 then NegInf else PosInf)
         else if ieee_fraction w div 2 ^ 22 = 1 then QuietNaN else SignalingNaN)
      else if ieee_exponent w = 0 then
        (if ieee_fraction w = 0 then (if ieee_sign w = 1 then NegZero else PosZero)
         else (if ieee_sign w = 1 then NegSubnormal else PosSubnormal))
      else (if ieee_sign w = 1 then NegNormal else PosNormal))"

fun category_bit :: "fp_category \<Rightarrow> nat" where
  "category_bit NegInf = 0"
| "category_bit NegNormal = 1"
| "category_bit NegSubnormal = 2"
| "category_bit NegZero = 3"
| "category_bit PosZero = 4"
| "category_bit PosSubnormal = 5"
| "category_bit PosNormal = 6"
| "category_bit PosInf = 7"
| "category_bit SignalingNaN = 8"
| "category_bit QuietNaN = 9"

section \<open>Exact arithmetic for floating-point values\<close>

text \<open>
  A finite floating-point number is a rational number; the operations of the Python
  runtime on floats and the packing of \<open>struct\<close> are modelled exactly, with the
  IEEE-754 rounding to nearest, ties to even, written out.

  \<open>rne\<close> rounds a rational to the nearest integer, ties to even: Python's built-in
  \<open>round\<close> on a finite float. \<open>ilog b x\<close> is the exponent of a positive \<open>x\<close> in
  base \<open>b\<close>: \<open>b^(ilog b x) \<le> x < b^(ilog b x + 1)\<close>. \<open>round_at b q x\<close> rounds
  \<open>x\<close> to the nearest multiple of \<open>b^q\<close>. \<open>round_binary p qmin x\<close> rounds a
  non-negative \<open>x\<close> to \<open>p\<close> significant bits, the unit in the last place never
  below \<open>2^qmin\<close> (gradual underflow); the exponent range is not bounded above, the
  callers test for overflow.
\<close>

definition rne :: "rat \<Rightarrow> int" where
  "rne x =
     (let f = \<lfloor>x\<rfloor>; r = x - of_int f
      in if r < 1 / 2 then f
         else if 1 / 2 < r then f + 1
         else if even f then f else f + 1)"

definition ilog :: "nat \<Rightarrow> rat \<Rightarrow> int" where
  "ilog b x =
     (let n = fst (quotient_of x); d = snd (quotient_of x);
          k = int (floorlog b (nat n)) - int (floorlog b (nat d))
      in if of_int d * of_nat b powi k \<le> (of_int n :: rat) then k else k - 1)"

definition ilog2 :: "rat \<Rightarrow> int" where
  "ilog2 x = ilog 2 x"

definition round_at :: "nat \<Rightarrow> int \<Rightarrow> rat \<Rightarrow> rat" where
  "round_at b q x = of_int (rne (x / of_nat b powi q)) * of_nat b powi q"

definition round_binary :: "nat \<Rightarrow> int \<Rightarrow> rat \<Rightarrow> rat" where
  "round_binary p qmin x =
     (if x = 0 then 0 else round_at 2 (max (ilog2 x - int p + 1) qmin) x)"

text \<open>
  The binary32 encoding of a sign and a magnitude that \<open>round_binary 24 (-149)\<close>
  returned: an infinity from \<open>2^128\<close> on, a subnormal number (or zero) below
  \<open>2^-126\<close>, a normal number otherwise.
\<close>

definition encode_binary32 :: "bool \<Rightarrow> rat \<Rightarrow> int" where
  "encode_binary32 sign y =
     (let s = (if sign then 0x80000000 else 0)
      in if 2 ^ 128 \<le> y then s OR 0x7F800000
         else if y < 2 powi (-126) then s OR \<lfloor>y * 2 ^ 149\<rfloor>
         else let e = ilog2 y
              in s OR push_bit 23 (e + 127) OR (\<lfloor>y / 2 powi (e - 23)\<rfloor> - 2 ^ 23))"

subsection \<open>Python floats\<close>

text \<open>
  A Python float is an IEEE-754 binary64 datum: a NaN, a signed infinity, or a finite
  number with its sign (zeros are signed) and its magnitude.
\<close>

datatype pyfloat = Finite bool rat | Infinity bool | NaN

definition py_is_zero :: "pyfloat \<Rightarrow> bool" where
  "py_is_zero f = (case f of Finite s m \<Rightarrow> m = 0 | _ \<Rightarrow> False)"

text \<open>Comparison of a float with a finite constant: \<open>f >= c\<close> and \<open>f < c\<close>.\<close>

definition py_ge :: "pyfloat \<Rightarrow> rat \<Rightarrow> bool" where
  "py_ge f c = (case f of Finite s m \<Rightarrow> c \<le> (if s then - m else m)
                | Infinity s \<Rightarrow> \<not> s | NaN \<Rightarrow> False)"

definition py_lt :: "pyfloat \<Rightarrow> rat \<Rightarrow> bool" where
  "py_lt f c = (case f of Finite s m \<Rightarrow> (if s then - m else m) < c
                | Infinity s \<Rightarrow> s | NaN \<Rightarrow> False)"

text \<open>
  The result of a binary64 operation whose exact value has sign \<open>s\<close> and magnitude
  \<open>x\<close>: rounded to 53 bits, an infinity on overflow.
\<close>

definition round_binary64 :: "bool \<Rightarrow> rat \<Rightarrow> pyfloat" where
  "round_binary64 s x =
     (let y = round_binary 53 (-1074) x
      in if 2 ^ 1024 \<le> y then Infinity s else Finite s y)"

text \<open>Float division \<open>f1 / f2\<close>: a zero divisor raises \<open>ZeroDivisionError\<close>.\<close>

definition py_truediv :: "pyfloat \<Rightarrow> pyfloat \<Rightarrow> error + pyfloat" where
  "py_truediv f1 f2 =
     (if py_is_zero f2 then Inl ZeroDivisionError
      else case (f1, f2) of
             (NaN, _) \<Rightarrow> Inr NaN
           | (_, NaN) \<Rightarrow> Inr NaN
           | (Infinity s1, Infinity s2) \<Rightarrow> Inr NaN
           | (Infinity s1, Finite s2 m2) \<Rightarrow> Inr (Infinity (s1 \<noteq> s2))
           | (Finite s1 m1, Infinity s2) \<Rightarrow> Inr (Finite (s1 \<noteq> s2) 0)
           | (Finite s1 m1, Finite s2 m2) \<Rightarrow> Inr (round_binary64 (s1 \<noteq> s2) (m1 / m2)))"

text \<open>
  \<open>round(value)\<close> of a float, with one argument: the nearest integer, ties to even;
  \<open>ValueError\<close> on a NaN and \<open>OverflowError\<close> on an infinity.
\<close>

definition py_round :: "pyfloat \<Rightarrow> error + int" where
  "py_round f = (case f of Finite s m \<Rightarrow> Inr (rne (if s then - m else m))
                 | Infinity s \<Rightarrow> Inl OverflowError | NaN \<Rightarrow> Inl ValueError)"

section \<open>models/fp\_model.py: conversions and arithmetic\<close>

text \<open>
  \<open>bits_to_float\<close> packs \<open>bits & MASK32\<close> as a big-endian unsigned word and unpacks
  it as a binary32 datum; the float it returns has exactly the value of that datum.
\<close>

definition bits_to_float :: "int \<Rightarrow> pyfloat" where
  "bits_to_float bits =
     (let b = bits AND MASK32;
          sign = (b div 2 ^ 31 = 1);
          e = (b div 2 ^ 23) mod 2 ^ 8;
          m = b mod 2 ^ 23
      in if e = 255 then (if m = 0 then Infinity sign else NaN)
         else if e = 0 then Finite sign (of_int m * 2 powi (-149))
         else Finite sign (of_int (2 ^ 23 + m) * 2 powi (e - 150)))"

text \<open>
  \<open>float_to_bits\<close>: \<open>struct.pack(">f", f)\<close> rounds the binary64 value to binary32
  and raises \<open>OverflowError\<close> when a finite value rounds to an infinity; the function
  catches it and returns the signed infinity.
\<close>

definition struct_pack_f :: "bool \<Rightarrow> rat \<Rightarrow> error + int" where
  "struct_pack_f s m =
     (let y = round_binary 24 (-149) m
      in if 2 ^ 128 \<le> y then Inl OverflowError else Inr (encode_binary32 s y))"

definition float_to_bits :: "pyfloat \<Rightarrow> int" where
  "float_to_bits f =
     (case f of
        NaN \<Rightarrow> FP_CANONICAL_NAN
      | Infinity s \<Rightarrow> (if s then FP_NEG_INF else FP_POS_INF)
      | Finite s m \<Rightarrow>
          (case struct_pack_f s m of
             Inr packed \<Rightarrow> packed
           | Inl e \<Rightarrow> (if py_lt f 0 then FP_NEG_INF else FP_POS_INF)))"

definition fdiv_s :: "int \<Rightarrow> int \<Rightarrow> error + int" where
  "fdiv_s rs1_bits rs2_bits =
     (if is_nan rs1_bits \<or> is_nan rs2_bits then Inr FP_CANONICAL_NAN
      else if is_inf rs1_bits \<and> is_inf rs2_bits then Inr FP_CANONICAL_NAN
      else if is_zero rs1_bits \<and> is_zero rs2_bits then Inr FP_CANONICAL_NAN
      else let f1 = bits_to_float rs1_bits;
               f2 = bits_to_float rs2_bits
           in if py_is_zero f2 then
                (let sign = (rs1_bits XOR rs2_bits) AND FP_SIGN_MASK
                 in Inr (FP_POS_INF OR sign))
              else case py_truediv f1 f2 of
                     Inl e \<Rightarrow> Inl e
                   | Inr result \<Rightarrow> Inr (canonicalize_nan (float_to_bits result)))"

definition round_to_nearest_even :: "pyfloat \<Rightarrow> error + int" where
  "round_to_nearest_even v = py_round v"

definition fcvt_w_s :: "int \<Rightarrow> error + int" where
  "fcvt_w_s rs1_bits =
     (if is_nan rs1_bits then Inr 0x7FFFFFFF
      else if is_inf rs1_bits then Inr (if \<not> is_negative rs1_bits then 0x7FFFFFFF else 0x80000000)
      else let f = bits_to_float rs1_bits
           in if py_ge f 2147483648 then Inr 0x7FFFFFFF
              else if py_lt f (- 2147483648) then Inr 0x80000000
              else case round_to_nearest_even f of
                     Inl e \<Rightarrow> Inl e
                   | Inr result \<Rightarrow>
                       if result > 2147483647 then Inr 0x7FFFFFFF
                       else if result < - 2147483648 then Inr 0x80000000
                       else Inr (result AND MASK32))"

text \<open>
  The value of a finite binary32 datum, from the fields of its encoding, and the
  classes of data the special cases of the arithmetic speak about.
\<close>

definition ieee_value :: "32 word \<Rightarrow> rat" where
  "ieee_value w =
     (let m = (if ieee_exponent w = 0
               then of_nat (ieee_fraction w) * 2 powi (-149)
               else of_nat (2 ^ 23 + ieee_fraction w) * 2 powi (int (ieee_exponent w) - 150))
      in if ieee_sign w = 1 then - m else m)"

definition ieee_is_nan :: "32 word \<Rightarrow> bool" where
  "ieee_is_nan w \<longleftrightarrow> ieee_exponent w = 255 \<and> ieee_fraction w \<noteq> 0"

definition ieee_is_inf :: "32 word \<Rightarrow> bool" where
  "ieee_is_inf w \<longleftrightarrow> ieee_exponent w = 255 \<and> ieee_fraction w = 0"

definition ieee_is_zero :: "32 word \<Rightarrow> bool" where
  "ieee_is_zero w \<longleftrightarrow> ieee_exponent w = 0 \<and> ieee_fraction w = 0"

definition ieee_is_finite :: "32 word \<Rightarrow> bool" where
  "ieee_is_finite w \<longleftrightarrow> ieee_exponent w \<noteq> 255"

section \<open>encoders/compressed\_encode.py\<close>

text \<open>
  \<open>_pack_bits\<close>: \<open>result |= (value & mask) << position\<close> for every field
  \<open>(value, position, mask)\<close>.
\<close>

fun pack_bits_from :: "int \<Rightarrow> (int \<times> nat \<times> int) list \<Rightarrow> int" where
  "pack_bits_from result [] = result"
| "pack_bits_from result ((val, position, msk) # rest) =
     pack_bits_from (result OR push_bit position (val AND msk)) rest"

definition pack_bits :: "(int \<times> nat \<times> int) list \<Rightarrow> int" where
  "pack_bits field_list = pack_bits_from 0 field_list"

text \<open>A failed \<open>assert\<close> raises \<open>AssertionError\<close>; \<open>check\<close> is one assert statement.\<close>

definition check :: "bool \<Rightarrow> assertion \<Rightarrow> (error + 'a) \<Rightarrow> error + 'a" where
  "check cond msg rest = (if cond then rest else Inl (AssertionError msg))"

definition compress_reg :: "int \<Rightarrow> error + int" where
  "compress_reg reg =
     check (8 \<le> reg \<and> reg \<le> 15) (CompressedRegister reg) (Inr (reg - 8))"

definition is_compressible_reg :: "int \<Rightarrow> bool" where
  "is_compressible_reg reg \<longleftrightarrow> 8 \<le> reg \<and> reg \<le> 15"

text \<open>
  The encoders evaluate their asserts first and the fields, with the calls of
  \<open>compress_reg\<close>, in the order of the argument list of \<open>_pack_bits\<close>;
  \<open>with_reg\<close> is one such call and what follows it.
\<close>

definition with_reg :: "int \<Rightarrow> (int \<Rightarrow> error + 'a) \<Rightarrow> error + 'a" where
  "with_reg reg k = (case compress_reg reg of Inl e \<Rightarrow> Inl e | Inr r \<Rightarrow> k r)"

subsection \<open>Quadrant 0\<close>

definition enc_c_addi4spn :: "int \<Rightarrow> int \<Rightarrow> error + int" where
  "enc_c_addi4spn rd_prime nzuimm =
     check (8 \<le> rd_prime \<and> rd_prime \<le> 15) OperandRange
    (check (nzuimm \<noteq> 0 \<and> nzuimm mod 4 = 0) OperandRange
    (check (4 \<le> nzuimm \<and> nzuimm \<le> 1020) OperandRange
    (with_reg rd_prime (\<lambda>r. Inr (pack_bits
       [(drop_bit 4 nzuimm AND 0x3, 11, 0x3),
        (drop_bit 6 nzuimm AND 0xF, 7, 0xF),
        (drop_bit 2 nzuimm AND 0x1, 6, 0x1),
        (drop_bit 3 nzuimm AND 0x1, 5, 0x1),
        (r, 2, 0x7),
        (0, 0, 0x3)])))))"

definition enc_c_lw :: "int \<Rightarrow> int \<Rightarrow> int \<Rightarrow> error + int" where
  "enc_c_lw rd_prime rs1_prime uimm =
     check (8 \<le> rd_prime \<and> rd_prime \<le> 15 \<and> 8 \<le> rs1_prime \<and> rs1_prime \<le> 15) OperandRange
    (check (uimm mod 4 = 0 \<and> 0 \<le> uimm \<and> uimm \<le> 124) OperandRange
    (with_reg rs1_prime (\<lambda>r1. with_reg rd_prime (\<lambda>r. Inr (pack_bits
       [(2, 13, 0x7),
        (drop_bit 6 uimm AND 0x1, 5, 0x1),
        (drop_bit 3 uimm AND 0x7, 10, 0x7),
        (r1, 7, 0x7),
        (drop_bit 2 uimm AND 0x1, 6, 0x1),
        (r, 2, 0x7),
        (0, 0, 0x3)])))))"

definition enc_c_sw :: "int \<Rightarrow> int \<Rightarrow> int \<Rightarrow> error + int" where
  "enc_c_sw rs1_prime rs2_prime uimm =
     check (8 \<le> rs1_prime \<and> rs1_prime \<le> 15 \<and> 8 \<le> rs2_prime \<and> rs2_prime \<le> 15) OperandRange
    (check (uimm mod 4 = 0 \<and> 0 \<le> uimm \<and> uimm \<le> 124) OperandRange
    (with_reg rs1_prime (\<lambda>r1. with_reg rs2_prime (\<lambda>r2. Inr (pack_bits
       [(6, 13, 0x7),
        (drop_bit 6 uimm AND 0x1, 5, 0x1),
        (drop_bit 3 uimm AND 0x7, 10, 0x7),
        (r1, 7, 0x7),
        (drop_bit 2 uimm AND 0x1, 6, 0x1),
        (r2, 2, 0x7),
        (0, 0, 0x3)])))))"

subsection \<open>Quadrant 1\<close>

definition enc_c_nop :: int where
  "enc_c_nop = 0x0001"

definition enc_c_addi :: "int \<Rightarrow> int \<Rightarrow> error + int" where
  "enc_c_addi rd nzimm =
     check (0 \<le> rd \<and> rd \<le> 31) OperandRange
    (check (- 32 \<le> nzimm \<and> nzimm \<le> 31) OperandRange
    (let imm6 = nzimm AND 0x3F
     in Inr (pack_bits
       [(0, 13, 0x7),
        (drop_bit 5 imm6 AND 0x1, 12, 0x1),
        (rd, 7, 0x1F),
        (imm6 AND 0x1F, 2, 0x1F),
        (1, 0, 0x3)])))"

definition c_jump_fields :: "int \<Rightarrow> int \<Rightarrow> (int \<times> nat \<times> int) list" where
  "c_jump_fields funct3 imm12 =
       [(funct3, 13, 0x7),
        (drop_bit 11 imm12 AND 0x1, 12, 0x1),
        (drop_bit 4 imm12 AND 0x1, 11, 0x1),
        (drop_bit 8 imm12 AND 0x3, 9, 0x3),
        (drop_bit 10 imm12 AND 0x1, 8, 0x1),
        (drop_bit 6 imm12 AND 0x1, 7, 0x1),
        (drop_bit 7 imm12 AND 0x1, 6, 0x1),
        (drop_bit 1 imm12 AND 0x7, 3, 0x7),
        (drop_bit 5 imm12 AND 0x1, 2, 0x1),
        (1, 0, 0x3)]"

definition enc_c_jal :: "int \<Rightarrow> error + int" where
  "enc_c_jal imm =
     check (imm mod 2 = 0) OperandRange
    (check (- 2048 \<le> imm \<and> imm \<le> 2046) OperandRange
    (let imm12 = imm AND 0xFFF in Inr (pack_bits (c_jump_fields 1 imm12))))"

definition enc_c_li :: "int \<Rightarrow> int \<Rightarrow> error + int" where
  "enc_c_li rd imm =
     check (1 \<le> rd \<and> rd \<le> 31) OperandRange
    (check (- 32 \<le> imm \<and> imm \<le> 31) OperandRange
    (let imm6 = imm AND 0x3F
     in Inr (pack_bits
       [(2, 13, 0x7),
        (drop_bit 5 imm6 AND 0x1, 12, 0x1),
        (rd, 7, 0x1F),
        (imm6 AND 0x1F, 2, 0x1F),
        (1, 0, 0x3)])))"

definition enc_c_lui :: "int \<Rightarrow> int \<Rightarrow> error + int" where
  "enc_c_lui rd nzimm =
     check (1 \<le> rd \<and> rd \<le> 31 \<and> rd \<noteq> 2) OperandRange
    (check (nzimm \<noteq> 0) OperandRange
    (check (- 32 \<le> nzimm \<and> nzimm \<le> 31) OperandRange
    (let imm6 = nzimm AND 0x3F
     in Inr (pack_bits
       [(3, 13, 0x7),
        (drop_bit 5 imm6 AND 0x1, 12, 0x1),
        (rd, 7, 0x1F),
        (imm6 AND 0x1F, 2, 0x1F),
        (1, 0, 0x3)]))))"

definition enc_c_addi16sp :: "int \<Rightarrow> error + int" where
  "enc_c_addi16sp nzimm =
     check (nzimm \<noteq> 0 \<and> nzimm mod 16 = 0) OperandRange
    (check (- 512 \<le> nzimm \<and> nzimm \<le> 496) OperandRange
    (let imm = nzimm AND 0x3FF
     in Inr (pack_bits
       [(3, 13, 0x7),
        (drop_bit 9 imm AND 0x1, 12, 0x1),
        (2, 7, 0x1F),
        (drop_bit 4 imm AND 0x1, 6, 0x1),
        (drop_bit 6 imm AND 0x1, 5, 0x1),
        (drop_bit 7 imm AND 0x3, 3, 0x3),
        (drop_bit 5 imm AND 0x1, 2, 0x1),
        (1, 0, 0x3)])))"

definition enc_c_srli :: "int \<Rightarrow> int \<Rightarrow> error + int" where
  "enc_c_srli rd_prime shamt =
     check (8 \<le> rd_prime \<and> rd_prime \<le> 15) OperandRange
    (check (1 \<le> shamt \<and> shamt \<le> 31) OperandRange
    (with_reg rd_prime (\<lambda>r. Inr (pack_bits
       [(4, 13, 0x7),
        (0, 12, 0x1),
        (0, 10, 0x3),
        (r, 7, 0x7),
        (shamt AND 0x1F, 2, 0x1F),
        (1, 0, 0x3)]))))"

definition enc_c_srai :: "int \<Rightarrow> int \<Rightarrow> error + int" where
  "enc_c_srai rd_prime shamt =
     check (8 \<le> rd_prime \<and> rd_prime \<le> 15) OperandRange
    (check (1 \<le> shamt \<and> shamt \<le> 31) OperandRange
    (with_reg rd_prime (\<lambda>r. Inr (pack_bits
       [(4, 13, 0x7),
        (0, 12, 0x1),
        (1, 10, 0x3),
        (r, 7, 0x7),
        (shamt AND 0x1F, 2, 0x1F),
        (1, 0, 0x3)]))))"

definition enc_c_andi :: "int \<Rightarrow> int \<Rightarrow> error + int" where
  "enc_c_andi rd_prime imm =
     check (8 \<le> rd_prime \<and> rd_prime \<le> 15) OperandRange
    (check (- 32 \<le> imm \<and> imm \<le> 31) OperandRange
    (let imm6 = imm AND 0x3F
     in with_reg rd_prime (\<lambda>r. Inr (pack_bits
       [(4, 13, 0x7),
        (drop_bit 5 imm6 AND 0x1, 12, 0x1),
        (2, 10, 0x3),
        (r, 7, 0x7),
        (imm6 AND 0x1F, 2, 0x1F),
        (1, 0, 0x3)]))))"

text \<open>\<open>C.SUB\<close>, \<open>C.XOR\<close>, \<open>C.OR\<close> and \<open>C.AND\<close> differ in one field, \<open>funct2\<close>.\<close>

definition c_alu_reg :: "int \<Rightarrow> int \<Rightarrow> int \<Rightarrow> error + int" where
  "c_alu_reg funct2 rd_prime rs2_prime =
     check (8 \<le> rd_prime \<and> rd_prime \<le> 15 \<and> 8 \<le> rs2_prime \<and> rs2_prime \<le> 15) OperandRange
    (with_reg rd_prime (\<lambda>r. with_reg rs2_prime (\<lambda>r2. Inr (pack_bits
       [(4, 13, 0x7),
        (0, 12, 0x1),
        (3, 10, 0x3),
        (r, 7, 0x7),
        (funct2, 5, 0x3),
        (r2, 2, 0x7),
        (1, 0, 0x3)]))))"

definition enc_c_sub :: "int \<Rightarrow> int \<Rightarrow> error + int" where
  "enc_c_sub rd_prime rs2_prime = c_alu_reg 0 rd_prime rs2_prime"

definition enc_c_xor :: "int \<Rightarrow> int \<Rightarrow> error + int" where
  "enc_c_xor rd_prime rs2_prime = c_alu_reg 1 rd_prime rs2_prime"

definition enc_c_or :: "int \<Rightarrow> int \<Rightarrow> error + int" where
  "enc_c_or rd_prime rs2_prime = c_alu_reg 2 rd_prime rs2_prime"

definition enc_c_and :: "int \<Rightarrow> int \<Rightarrow> error + int" where
  "enc_c_and rd_prime rs2_prime = c_alu_reg 3 rd_prime rs2_prime"

definition enc_c_j :: "int \<Rightarrow> error + int" where
  "enc_c_j imm =
     check (imm mod 2 = 0) OperandRange
    (check (- 2048 \<le> imm \<and> imm \<le> 2046) OperandRange
    (let imm12 = imm AND 0xFFF in Inr (pack_bits (c_jump_fields 5 imm12))))"

text \<open>\<open>C.BEQZ\<close> and \<open>C.BNEZ\<close> differ in \<open>funct3\<close>.\<close>

definition c_branch :: "int \<Rightarrow> int \<Rightarrow> int \<Rightarrow> error + int" where
  "c_branch funct3 rs1_prime imm =
     check (8 \<le> rs1_prime \<and> rs1_prime \<le> 15) OperandRange
    (check (imm mod 2 = 0) OperandRange
    (check (- 256 \<le> imm \<and> imm \<le> 254) OperandRange
    (let imm9 = imm AND 0x1FF
     in with_reg rs1_prime (\<lambda>r1. Inr (pack_bits
       [(funct3, 13, 0x7),
        (drop_bit 8 imm9 AND 0x1, 12, 0x1),
        (drop_bit 3 imm9 AND 0x3, 10, 0x3),
        (r1, 7, 0x7),
        (drop_bit 6 imm9 AND 0x3, 5, 0x3),
        (drop_bit 1 imm9 AND 0x3, 3, 0x3),
        (drop_bit 5 imm9 AND 0x1, 2, 0x1),
        (1, 0, 0x3)])))))"

definition enc_c_beqz :: "int \<Rightarrow> int \<Rightarrow> error + int" where
  "enc_c_beqz rs1_prime imm = c_branch 6 rs1_prime imm"

definition enc_c_bnez :: "int \<Rightarrow> int \<Rightarrow> error + int" where
  "enc_c_bnez rs1_prime imm = c_branch 7 rs1_prime imm"

subsection \<open>Quadrant 2\<close>

definition enc_c_slli :: "int \<Rightarrow> int \<Rightarrow> error + int" where
  "enc_c_slli rd shamt =
     check (1 \<le> rd \<and> rd \<le> 31) OperandRange
    (check (1 \<le> shamt \<and> shamt \<le> 31) OperandRange
    (Inr (pack_bits
       [(0, 13, 0x7),
        (0, 12, 0x1),
        (rd, 7, 0x1F),
        (shamt AND 0x1F, 2, 0x1F),
        (2, 0, 0x3)])))"

definition enc_c_lwsp :: "int \<Rightarrow> int \<Rightarrow> error + int" where
  "enc_c_lwsp rd uimm =
     check (1 \<le> rd \<and> rd \<le> 31) OperandRange
    (check (uimm mod 4 = 0 \<and> 0 \<le> uimm \<and> uimm \<le> 252) OperandRange
    (Inr (pack_bits
       [(2, 13, 0x7),
        (drop_bit 5 uimm AND 0x1, 12, 0x1),
        (rd, 7, 0x1F),
        (drop_bit 2 uimm AND 0x7, 4, 0x7),
        (drop_bit 6 uimm AND 0x3, 2, 0x3),
        (2, 0, 0x3)])))"

definition enc_c_jr :: "int \<Rightarrow> error + int" where
  "enc_c_jr rs1 =
     check (1 \<le> rs1 \<and> rs1 \<le> 31) OperandRange
    (Inr (pack_bits
       [(4, 13, 0x7), (0, 12, 0x1), (rs1, 7, 0x1F), (0, 2, 0x1F), (2, 0, 0x3)]))"

definition enc_c_mv :: "int \<Rightarrow> int \<Rightarrow> error + int" where
  "enc_c_mv rd rs2 =
     check (1 \<le> rd \<and> rd \<le> 31 \<and> 1 \<le> rs2 \<and> rs2 \<le> 31) OperandRange
    (Inr (pack_bits
       [(4, 13, 0x7), (0, 12, 0x1), (rd, 7, 0x1F), (rs2, 2, 0x1F), (2, 0, 0x3)]))"

definition enc_c_ebreak :: int where
  "enc_c_ebreak = 0x9002"

definition enc_c_jalr :: "int \<Rightarrow> error + int" where
  "enc_c_jalr rs1 =
     check (1 \<le> rs1 \<and> rs1 \<le> 31) OperandRange
    (Inr (pack_bits
       [(4, 13, 0x7), (1, 12, 0x1), (rs1, 7, 0x1F), (0, 2, 0x1F), (2, 0, 0x3)]))"

definition enc_c_add :: "int \<Rightarrow> int \<Rightarrow> error + int" where
  "enc_c_add rd rs2 =
     check (1 \<le> rd \<and> rd \<le> 31 \<and> 1 \<le> rs2 \<and> rs2 \<le> 31) OperandRange
    (Inr (pack_bits
       [(4, 13, 0x7), (1, 12, 0x1), (rd, 7, 0x1F), (rs2, 2, 0x1F), (2, 0, 0x3)]))"

definition enc_c_swsp :: "int \<Rightarrow> int \<Rightarrow> error + int" where
  "enc_c_swsp rs2 uimm =
     check (0 \<le> rs2 \<and> rs2 \<le> 31) OperandRange
    (check (uimm mod 4 = 0 \<and> 0 \<le> uimm \<and> uimm \<le> 252) OperandRange
    (Inr (pack_bits
       [(6, 13, 0x7),
        (drop_bit 2 uimm AND 0xF, 9, 0xF),
        (drop_bit 6 uimm AND 0x3, 7, 0x3),
        (rs2, 2, 0x1F),
        (2, 0, 0x3)])))"

section \<open>encoders/op\_tables.py\<close>

text \<open>
  The encoder makers of the operation tables call the 32-bit encoders of
  \<open>encoders/instruction_encode.py\<close>, which is not among the sources: the I-type
  encoder \<open>enc_i(imm, rs1, funct3, rd)\<close> is a parameter of the makers that use it.
\<close>

type_synonym enc_i_type = "int \<Rightarrow> int \<Rightarrow> int \<Rightarrow> int \<Rightarrow> error + int"

definition make_i_encoder :: "enc_i_type \<Rightarrow> int \<Rightarrow> int \<Rightarrow> int \<Rightarrow> int \<Rightarrow> error + int" where
  "make_i_encoder enc_i f3 = (\<lambda>rd rs1 imm. enc_i imm rs1 f3 rd)"

definition make_i_shift_encoder ::
  "enc_i_type \<Rightarrow> int \<Rightarrow> int \<Rightarrow> int \<Rightarrow> int \<Rightarrow> int \<Rightarrow> error + int" where
  "make_i_shift_encoder enc_i f3 f7 = (\<lambda>rd rs1 sh. enc_i ((sh AND 0x1F) OR push_bit 5 f7) rs1 f3 rd)"

text \<open>The entries of the table \<open>I_ALU\<close> for the shifts by an immediate.\<close>

definition I_ALU_slli :: "enc_i_type \<Rightarrow> int \<Rightarrow> int \<Rightarrow> int \<Rightarrow> error + int" where
  "I_ALU_slli enc_i = make_i_shift_encoder enc_i 0x1 0x00"

definition I_ALU_srli :: "enc_i_type \<Rightarrow> int \<Rightarrow> int \<Rightarrow> int \<Rightarrow> error + int" where
  "I_ALU_srli enc_i = make_i_shift_encoder enc_i 0x5 0x00"

definition I_ALU_srai :: "enc_i_type \<Rightarrow> int \<Rightarrow> int \<Rightarrow> int \<Rightarrow> error + int" where
  "I_ALU_srai enc_i = make_i_shift_encoder enc_i 0x5 0x20"

text \<open>
  Modelled from the spec: \<open>enc_i\<close> of the absent \<open>encoders/instruction_encode.py\<close>.
  The codec rejects illegal operands with an encoding error (an immediate outside the
  signed 12-bit range, a register index outside 0 to 31) and otherwise packs the I-type
  word: immediate in bits 31 to 20, \<open>rs1\<close> in bits 19 to 15, \<open>funct3\<close> in bits 14 to 12,
  \<open>rd\<close> in bits 11 to 7 and the opcode \<open>0x13\<close> of the immediate ALU operations.
\<close>

definition enc_i_spec :: enc_i_type where
  "enc_i_spec imm rs1 f3 rd =
     (if - 2048 \<le> imm \<and> imm \<le> 2047 \<and> 0 \<le> rs1 \<and> rs1 \<le> 31 \<and> 0 \<le> rd \<and> rd \<le> 31
         \<and> 0 \<le> f3 \<and> f3 \<le> 7
      then Inr (push_bit 20 (imm AND 0xFFF) OR push_bit 15 rs1 OR push_bit 12 f3
                OR push_bit 7 rd OR 0x13)
      else Inl EncodingError)"

section \<open>cocotb\_tests/instruction\_executor.py\<close>

text \<open>
  Python list indexing: a negative index counts from the end, an index out of range
  raises \<open>IndexError\<close>.
\<close>

definition list_index :: "'a list \<Rightarrow> int \<Rightarrow> error + nat" where
  "list_index xs i =
     (if 0 \<le> i \<and> i < int (length xs) then Inr (nat i)
      else if - int (length xs) \<le> i \<and> i < 0 then Inr (nat (int (length xs) + i))
      else Inl IndexError)"

definition list_get :: "'a list \<Rightarrow> int \<Rightarrow> error + 'a" where
  "list_get xs i = (case list_index xs i of Inl e \<Rightarrow> Inl e | Inr j \<Rightarrow> Inr (xs ! j))"

definition list_set :: "'a list \<Rightarrow> int \<Rightarrow> 'a \<Rightarrow> error + 'a list" where
  "list_set xs i v = (case list_index xs i of Inl e \<Rightarrow> Inl e | Inr j \<Rightarrow> Inr (xs[j := v]))"

text \<open>
  Modelled from the spec: the class \<open>TestState\<close> of the absent
  \<open>cocotb_tests/test_state.py\<close>, the pipeline state tracker. It holds the previous and
  the current view of the register file, the program counter, the reservation (an
  optional word-aligned address), the counters and the expected-value queues. The
  reservation is set by LR and consulted and cleared by SC: the check succeeds iff a
  reservation exists and matches the address. Advancing copies the current register
  file to the previous one. \<open>queue_expected_outputs\<close> appends a copy of the current
  register file and the expected program counter to their queues, as the directed
  atomics test does in line.
\<close>

record TestState =
  register_file_previous :: "int list"
  register_file_current :: "int list"
  program_counter_current :: int
  reservation :: "int option"
  cycle_counter :: int
  instret_counter :: int
  register_file_current_expected_queue :: "int list list"
  program_counter_expected_values_queue :: "int list"
  memory_write_address_expected_queue :: "int list"
  memory_write_data_expected_queue :: "int list"

definition set_reservation :: "TestState \<Rightarrow> int \<Rightarrow> TestState" where
  "set_reservation st address = st\<lparr>reservation := Some address\<rparr>"

definition check_reservation :: "TestState \<Rightarrow> int \<Rightarrow> bool" where
  "check_reservation st address \<longleftrightarrow> reservation st = Some address"

definition clear_reservation :: "TestState \<Rightarrow> TestState" where
  "clear_reservation st = st\<lparr>reservation := None\<rparr>"

definition queue_expected_outputs :: "TestState \<Rightarrow> int \<Rightarrow> TestState" where
  "queue_expected_outputs st expected_pc =
     st\<lparr>register_file_current_expected_queue :=
           register_file_current_expected_queue st @ [register_file_current st],
        program_counter_expected_values_queue :=
           program_counter_expected_values_queue st @ [expected_pc]\<rparr>"

definition increment_cycle_counter :: "TestState \<Rightarrow> TestState" where
  "increment_cycle_counter st = st\<lparr>cycle_counter := cycle_counter st + 1\<rparr>"

definition increment_instret_counter :: "TestState \<Rightarrow> TestState" where
  "increment_instret_counter st = st\<lparr>instret_counter := instret_counter st + 1\<rparr>"

definition update_program_counter :: "TestState \<Rightarrow> int \<Rightarrow> TestState" where
  "update_program_counter st expected_pc = st\<lparr>program_counter_current := expected_pc\<rparr>"

definition advance_register_state :: "TestState \<Rightarrow> TestState" where
  "advance_register_state st = st\<lparr>register_file_previous := register_file_current st\<rparr>"

text \<open>
  \<open>execute_sc\<close>, from the source. The encoder of \<open>sc.w\<close> belongs to the absent
  \<open>encoders/instruction_encode.py\<close> and is a parameter; the waits on the clock and on
  the ready signal do not touch the modelled state, and the optional logging is left
  out. The result is the success flag, the instruction word driven to the design, and
  the state tracker and the memory model as the call leaves them.
\<close>

type_synonym enc_sc_type = "int \<Rightarrow> int \<Rightarrow> int \<Rightarrow> error + int"

definition execute_sc ::
  "enc_sc_type \<Rightarrow> config \<Rightarrow> TestState \<Rightarrow> MemoryModel \<Rightarrow> int \<Rightarrow> int \<Rightarrow> int
     \<Rightarrow> error + (bool \<times> int \<times> TestState \<times> MemoryModel)" where
  "execute_sc enc_sc_w cfg st mem_model rd rs1 rs2 =
     (case enc_sc_w rd rs2 rs1 of Inl e \<Rightarrow> Inl e | Inr instr \<Rightarrow>
      case list_get (register_file_previous st) rs1 of Inl e \<Rightarrow> Inl e | Inr rs1_value \<Rightarrow>
      let address = rs1_value AND NOT 3;
          success = check_reservation st address;
          st1 = clear_reservation st;
          result_value = (if success then 0 else 1)
      in case (if success
               then (case list_get (register_file_previous st1) rs2 of
                       Inl e \<Rightarrow> Inl e
                     | Inr write_data \<Rightarrow>
                         Inr (st1\<lparr>memory_write_address_expected_queue :=
                                     memory_write_address_expected_queue st1 @ [address],
                                   memory_write_data_expected_queue :=
                                     memory_write_data_expected_queue st1 @ [write_data]\<rparr>,
                              write_word cfg mem_model address write_data))
               else Inr (st1, mem_model)) of
           Inl e \<Rightarrow> Inl e
         | Inr (st2, mem2) \<Rightarrow>
      case (if rd \<noteq> 0
            then list_set (register_file_current st2) rd (result_value AND MASK32)
            else Inr (register_file_current st2)) of
           Inl e \<Rightarrow> Inl e
         | Inr rf \<Rightarrow>
      let st3 = st2\<lparr>register_file_current := rf\<rparr>;
          expected_pc = (program_counter_current st3 + 4) AND MASK32;
          st4 = queue_expected_outputs st3 expected_pc;
          st5 = increment_cycle_counter st4;
          st6 = increment_instret_counter st5;
          st7 = update_program_counter st6 expected_pc;
          st8 = advance_register_state st7
      in Inr (success, instr, st8, mem2))"

subsection \<open>A concrete run\<close>

text \<open>
  Modelled from the spec: \<open>enc_sc_w\<close> of the absent
  \<open>encoders/instruction_encode.py\<close>, in the atomic format of the codec: \<open>funct5\<close>
  (00011 for SC.W) in bits 31 to 27, \<open>rs2\<close>, \<open>rs1\<close>, \<open>funct3 = 2\<close>, \<open>rd\<close> and the
  opcode \<open>0x2F\<close>; register indices outside 0 to 31 are rejected.
\<close>

definition enc_sc_w_spec :: enc_sc_type where
  "enc_sc_w_spec rd rs2 rs1 =
     (if 0 \<le> rd \<and> rd \<le> 31 \<and> 0 \<le> rs1 \<and> rs1 \<le> 31 \<and> 0 \<le> rs2 \<and> rs2 \<le> 31
      then Inr (push_bit 27 3 OR push_bit 20 rs2 OR push_bit 15 rs1 OR push_bit 12 2
                OR push_bit 7 rd OR 0x2F)
      else Inl EncodingError)"

text \<open>
  The state of the example scenario after \<open>lr.w x5, (x10)\<close>: \<open>x10 = 0x100\<close>,
  \<open>x12 = 0xDEADBEEF\<close>, a reservation on \<open>0x100\<close>, empty queues.
\<close>

definition state0 :: TestState where
  "state0 = \<lparr>register_file_previous = (replicate 32 0)[10 := 0x100, 12 := 0xDEADBEEF],
              register_file_current = (replicate 32 0)[10 := 0x100, 12 := 0xDEADBEEF],
              program_counter_current = 0x40,
              reservation = Some 0x100,
              cycle_counter = 0,
              instret_counter = 0,
              register_file_current_expected_queue = [],
              program_counter_expected_values_queue = [],
              memory_write_address_expected_queue = [],
              memory_write_data_expected_queue = []\<rparr>"

section \<open>The decimal arithmetic of the fused multiply-add\<close>

text \<open>
  \<open>_fma_float32\<close> computes with Python's \<open>decimal\<close> module in a local context of
  precision 150 and rounding \<open>ROUND_HALF_EVEN\<close>. Every arithmetic operation of that
  module returns the exact result rounded to the precision of the context, here to 150
  significant decimal digits; a power with an integer exponent is modelled the same
  way. The exponent limits of the context (beyond \<open>10^999999\<close>) are out of reach of the
  values that occur. A finite decimal is its sign (zeros are signed) and its magnitude.
\<close>

definition decimal_prec :: nat where
  "decimal_prec = 150"

definition round_decimal :: "rat \<Rightarrow> rat" where
  "round_decimal x =
     (if x = 0 then 0 else round_at 10 (ilog 10 x - int decimal_prec + 1) x)"

datatype decimal = Decimal bool rat | DecInfinity bool | DecNaN

text \<open>
  Product, sum and negation of finite decimals. A zero sum is negative only when both
  operands are negative; the negation of a zero is the positive zero. The operations are
  used on finite decimals only.
\<close>

fun dec_mul :: "decimal \<Rightarrow> decimal \<Rightarrow> decimal" where
  "dec_mul (Decimal s1 m1) (Decimal s2 m2) = Decimal (s1 \<noteq> s2) (round_decimal (m1 * m2))"
| "dec_mul _ _ = DecNaN"

fun dec_add :: "decimal \<Rightarrow> decimal \<Rightarrow> decimal" where
  "dec_add (Decimal s1 m1) (Decimal s2 m2) =
     (if s1 = s2 then Decimal s1 (round_decimal (m1 + m2))
      else if m2 < m1 then Decimal s1 (round_decimal (m1 - m2))
      else if m1 < m2 then Decimal s2 (round_decimal (m2 - m1))
      else Decimal False 0)"
| "dec_add _ _ = DecNaN"

fun dec_neg :: "decimal \<Rightarrow> decimal" where
  "dec_neg (Decimal s m) = (if m = 0 then Decimal False 0 else Decimal (\<not> s) (round_decimal m))"
| "dec_neg (DecInfinity s) = DecInfinity (\<not> s)"
| "dec_neg DecNaN = DecNaN"

text \<open>
  The magnitudes \<open>d_abs\<close>, \<open>power\<close> and \<open>scaled\<close> of \<open>decimal_to_float32\<close> are
  positive decimals; on them the operations are those on the magnitudes. The divisors
  are 2 and powers of 2.
\<close>

definition dmul :: "rat \<Rightarrow> rat \<Rightarrow> rat" where
  "dmul x y = round_decimal (x * y)"

definition ddiv :: "rat \<Rightarrow> rat \<Rightarrow> rat" where
  "ddiv x y = round_decimal (x / y)"

definition dsub :: "rat \<Rightarrow> rat \<Rightarrow> rat" where
  "dsub x y = round_decimal (x - y)"

definition dpow2 :: "int \<Rightarrow> rat" where
  "dpow2 k = round_decimal (2 powi k)"

section \<open>models/fp\_model.py: fused multiply-add\<close>

subsection \<open>Unpacking\<close>

definition unpack_float32 :: "int \<Rightarrow> int \<times> int \<times> int" where
  "unpack_float32 bits =
     (let sign = drop_bit 31 bits AND 1;
          exp = drop_bit 23 bits AND 0xFF;
          mant = bits AND 0x7FFFFF
      in (sign, exp, mant))"

definition float32_to_decimal :: "int \<Rightarrow> decimal" where
  "float32_to_decimal bits =
     (let u = unpack_float32 bits;
          sign = fst u; exp = fst (snd u); mant = snd (snd u)
      in if exp = 0 then
          (if mant = 0 then (if sign = 0 then Decimal False 0 else Decimal True 0)
           else let v = dec_mul (Decimal False (of_int mant)) (Decimal False (dpow2 (- 149)))
                in if sign \<noteq> 0 then dec_neg v else v)
        else let v = dec_mul (Decimal False (of_int (0x800000 OR mant)))
                             (Decimal False (dpow2 (exp - 150)))
             in if sign \<noteq> 0 then dec_neg v else v)"

subsection \<open>Rounding a decimal to binary32\<close>

text \<open>
  The two searches for the binary exponent: \<open>while power * 2 <= d_abs\<close> upwards from
  \<open>2^0\<close>, \<open>while power > d_abs\<close> downwards from \<open>2^-1\<close>. A search that does not end
  has no result.
\<close>

partial_function (option) search_up :: "rat \<Rightarrow> int \<Rightarrow> rat \<Rightarrow> (rat \<times> int) option" where
  "search_up power' exp_estimate d_abs =
     (if dmul power' 2 \<le> d_abs then search_up (dmul power' 2) (exp_estimate + 1) d_abs
      else Some (power', exp_estimate))"

partial_function (option) search_down :: "rat \<Rightarrow> int \<Rightarrow> rat \<Rightarrow> (rat \<times> int) option" where
  "search_down power' exp_estimate d_abs =
     (if d_abs < power' then search_down (ddiv power' 2) (exp_estimate - 1) d_abs
      else Some (power', exp_estimate))"

declare search_up.simps [code] search_down.simps [code]

text \<open>
  The scaling of \<open>d_abs\<close> by \<open>2^scale_exp\<close> and the split of the scaled value into
  its integer part and the remainder.
\<close>

definition scale_decimal :: "rat \<Rightarrow> int \<Rightarrow> rat" where
  "scale_decimal d_abs scale_exp =
     (if 0 \<le> scale_exp then dmul d_abs (dpow2 scale_exp)
      else ddiv d_abs (dpow2 (- scale_exp)))"

text \<open>Guard, round bit and sticky bit of the scaled value, and the rounding decision.\<close>

definition round_up_decision :: "int \<Rightarrow> rat \<Rightarrow> int \<Rightarrow> int" where
  "round_up_decision scaled_int remainder mantissa =
     (let guard = drop_bit 26 scaled_int AND 1;
          round_bit = drop_bit 25 scaled_int AND 1;
          sticky = (if scaled_int AND 0x1FFFFFF \<noteq> 0 \<or> remainder \<noteq> 0 then 1 else 0);
          lsb = mantissa AND 1
      in guard AND (round_bit OR sticky OR lsb))"

definition round_normal :: "int \<Rightarrow> int \<Rightarrow> int \<Rightarrow> rat \<Rightarrow> int" where
  "round_normal sign biased_exp exp_estimate d_abs =
     (let scale_exp = 50 - exp_estimate;
          scaled = scale_decimal d_abs scale_exp;
          scaled_int = \<lfloor>scaled\<rfloor>;
          remainder = dsub scaled (of_int scaled_int);
          mantissa_24 = drop_bit 27 scaled_int;
          round_up = round_up_decision scaled_int remainder mantissa_24
      in if round_up \<noteq> 0 then
           (let mantissa_24 = mantissa_24 + 1
            in if 2 ^ 24 \<le> mantissa_24 then
                 (let mantissa_24 = drop_bit 1 mantissa_24;
                      biased_exp = biased_exp + 1
                  in if 255 \<le> biased_exp then (if sign \<noteq> 0 then FP_NEG_INF else FP_POS_INF)
                     else push_bit 31 sign OR push_bit 23 biased_exp OR (mantissa_24 AND 0x7FFFFF))
               else push_bit 31 sign OR push_bit 23 biased_exp OR (mantissa_24 AND 0x7FFFFF))
         else push_bit 31 sign OR push_bit 23 biased_exp OR (mantissa_24 AND 0x7FFFFF))"

definition round_subnormal :: "int \<Rightarrow> int \<Rightarrow> int \<Rightarrow> rat \<Rightarrow> int" where
  "round_subnormal sign biased_exp exp_estimate d_abs =
     (let shift = 1 - biased_exp
      in if 25 \<le> shift then (if sign \<noteq> 0 then FP_NEG_ZERO else FP_POS_ZERO)
         else
           let scale_exp = 49 + biased_exp - exp_estimate;
               scaled = scale_decimal d_abs scale_exp;
               scaled_int = \<lfloor>scaled\<rfloor>;
               remainder = dsub scaled (of_int scaled_int);
               mantissa = drop_bit 27 scaled_int;
               round_up = round_up_decision scaled_int remainder mantissa
           in if round_up \<noteq> 0 then
                (let mantissa = mantissa + 1
                 in if 2 ^ 23 \<le> mantissa then push_bit 31 sign OR push_bit 23 1
                    else push_bit 31 sign OR (mantissa AND 0x7FFFFF))
              else push_bit 31 sign OR (mantissa AND 0x7FFFFF))"

definition decimal_to_float32 :: "decimal \<Rightarrow> (error + int) option" where
  "decimal_to_float32 d =
     (case d of
        DecNaN \<Rightarrow> Some (Inr FP_CANONICAL_NAN)
      | DecInfinity s \<Rightarrow> Some (Inr (if s then FP_NEG_INF else FP_POS_INF))
      | Decimal s m \<Rightarrow>
          if m = 0 then Some (Inr (if s then FP_NEG_ZERO else FP_POS_ZERO))
          else
            let sign = (if s then 1 else 0);
                d_abs = round_decimal m
            in case (if 1 \<le> d_abs then search_up 1 0 d_abs
                     else search_down (1 / 2) (- 1) d_abs) of
                 None \<Rightarrow> None
               | Some (power', exp_estimate) \<Rightarrow>
                   let power_low = dpow2 exp_estimate;
                       power_high = dpow2 (exp_estimate + 1)
                   in if \<not> (power_low \<le> d_abs \<and> d_abs < power_high)
                      then Some (Inl (AssertionError ExponentCalc))
                      else
                        let biased_exp = exp_estimate + 127
                        in if 255 \<le> biased_exp
                           then Some (Inr (if sign \<noteq> 0 then FP_NEG_INF else FP_POS_INF))
                           else if 1 \<le> biased_exp
                           then Some (Inr (round_normal sign biased_exp exp_estimate d_abs))
                           else Some (Inr (round_subnormal sign biased_exp exp_estimate d_abs)))"

subsection \<open>The fused multiply-add\<close>

text \<open>The local helpers \<open>_is_inf\<close>, \<open>_is_zero\<close> and \<open>_get_sign\<close> of \<open>_fma_float32\<close>.\<close>

definition fma_is_inf :: "int \<Rightarrow> bool" where
  "fma_is_inf bits \<longleftrightarrow> (drop_bit 23 bits AND 0xFF) = 0xFF \<and> (bits AND 0x7FFFFF) = 0"

definition fma_is_zero :: "int \<Rightarrow> bool" where
  "fma_is_zero bits \<longleftrightarrow> (bits AND 0x7FFFFFFF) = 0"

definition fma_get_sign :: "int \<Rightarrow> int" where
  "fma_get_sign bits = drop_bit 31 bits AND 1"

definition fma_float32 :: "int \<Rightarrow> int \<Rightarrow> int \<Rightarrow> (error + int) option" where
  "fma_float32 a_bits b_bits c_bits =
     (let a_inf = fma_is_inf a_bits;
          b_inf = fma_is_inf b_bits;
          c_inf = fma_is_inf c_bits;
          a_zero = fma_is_zero a_bits;
          b_zero = fma_is_zero b_bits
      in if (a_inf \<and> b_zero) \<or> (a_zero \<and> b_inf) then Some (Inr FP_CANONICAL_NAN)
         else if a_inf \<or> b_inf then
           (let prod_sign = fma_get_sign a_bits XOR fma_get_sign b_bits
            in if c_inf then
                 (let c_sign = fma_get_sign c_bits
                  in if prod_sign \<noteq> c_sign then Some (Inr FP_CANONICAL_NAN)
                     else Some (Inr (if prod_sign \<noteq> 0 then FP_NEG_INF else FP_POS_INF)))
               else Some (Inr (if prod_sign \<noteq> 0 then FP_NEG_INF else FP_POS_INF)))
         else if c_inf then
           (let c_sign = fma_get_sign c_bits
            in Some (Inr (if c_sign \<noteq> 0 then FP_NEG_INF else FP_POS_INF)))
         else
           let a_dec = float32_to_decimal a_bits;
               b_dec = float32_to_decimal b_bits;
               c_dec = float32_to_decimal c_bits;
               result_dec = dec_add (dec_mul a_dec b_dec) c_dec
           in decimal_to_float32 result_dec)"

definition fmadd_s :: "int \<Rightarrow> int \<Rightarrow> int \<Rightarrow> (error + int) option" where
  "fmadd_s rs1_bits rs2_bits rs3_bits =
     (if is_nan rs1_bits \<or> is_nan rs2_bits \<or> is_nan rs3_bits then Some (Inr FP_CANONICAL_NAN)
      else if (is_zero rs1_bits \<and> is_inf rs2_bits) \<or> (is_inf rs1_bits \<and> is_zero rs2_bits)
      then Some (Inr FP_CANONICAL_NAN)
      else if (is_inf rs1_bits \<or> is_inf rs2_bits)
              \<and> is_inf rs3_bits
              \<and> (drop_bit 31 rs3_bits AND 1) \<noteq> ((drop_bit 31 rs1_bits XOR drop_bit 31 rs2_bits) AND 1)
      then Some (Inr FP_CANONICAL_NAN)
      else case fma_float32 rs1_bits rs2_bits rs3_bits of
             None \<Rightarrow> None
           | Some (Inl e) \<Rightarrow> Some (Inl e)
           | Some (Inr result_bits) \<Rightarrow> Some (Inr (canonicalize_nan result_bits)))"

subsection \<open>The IEEE-754 result\<close>

text \<open>
  The binary32 result of an operation whose exact value is \<open>x\<close>: the value rounded once,
  to nearest with ties to even, to a normal or a subnormal number, or to an infinity on
  overflow. An exact zero takes the sign \<open>neg_zero\<close> that the operation gives it.
\<close>

definition round_to_binary32 :: "bool \<Rightarrow> rat \<Rightarrow> int" where
  "round_to_binary32 neg_zero x =
     (if x = 0 then (if neg_zero then 0x80000000 else 0)
      else encode_binary32 (x < 0) (round_binary 24 (- 149) \<bar>x\<bar>))"

text \<open>
  The fused multiply-add of three finite data rounds the exact \<open>a * b + c\<close> once; an
  exact zero sum is negative only when the product and the addend are both negative
  (zeros). The two-step computation rounds the product first and the sum of the rounded
  product and \<open>c\<close> after.
\<close>

definition ieee_fma32 :: "32 word \<Rightarrow> 32 word \<Rightarrow> 32 word \<Rightarrow> int" where
  "ieee_fma32 a b c =
     round_to_binary32 ((ieee_sign a \<noteq> ieee_sign b) \<and> ieee_sign c = 1)
       (ieee_value a * ieee_value b + ieee_value c)"

definition two_step_fma32 :: "32 word \<Rightarrow> 32 word \<Rightarrow> 32 word \<Rightarrow> int" where
  "two_step_fma32 a b c =
     (let p = ieee_value a * ieee_value b;
          r = round_binary 24 (- 149) \<bar>p\<bar>;
          neg_p = (ieee_sign a \<noteq> ieee_sign b)
      in if 2 ^ 128 \<le> r then (if neg_p then 0xFF800000 else 0x7F800000)
         else round_to_binary32 (neg_p \<and> ieee_sign c = 1)
                ((if neg_p then - r else r) + ieee_value c))"

section \<open>Properties\<close>

subsection \<open>Bitwise masks as arithmetic\<close>

lemma int_and_mask: "(k::int) AND mask n = k mod 2 ^ n"
  by (simp add: take_bit_eq_mask [symmetric] take_bit_eq_mod)

lemma int_and_exp: "(k::int) AND 2 ^ n = (if bit k n then 2 ^ n else 0)"
  by (rule bit_eqI) (auto simp add: bit_simps)

lemma bit_int_iff_mod: "bit (k::int) n \<longleftrightarrow> 2 ^ n \<le> k mod 2 ^ Suc n"
proof -
  have e: "k mod 2 ^ Suc n = k mod 2 ^ n + 2 ^ n * of_bool (bit k n)"
    using take_bit_Suc_from_most [of n k] by (simp add: take_bit_eq_mod)
  have b: "0 \<le> k mod 2 ^ n" "k mod 2 ^ n < 2 ^ n" by simp_all
  show ?thesis
  proof (cases "bit k n")
    case True
    with e have "k mod 2 ^ Suc n = k mod 2 ^ n + 2 ^ n" by simp
    with b True show ?thesis by linarith
  next
    case False
    with e have "k mod 2 ^ Suc n = k mod 2 ^ n" by simp
    with b False show ?thesis by linarith
  qed
qed

lemma and_FFFFFFFF: "(v::int) AND 0xFFFFFFFF = v mod 4294967296"
  using int_and_mask [of v 32] by (simp add: mask_eq_exp_minus_1)

lemma and_7FFFFFFF: "(v::int) AND 0x7FFFFFFF = v mod 2147483648"
  using int_and_mask [of v 31] by (simp add: mask_eq_exp_minus_1)

lemma and_80000000:
  "(v::int) AND 0x80000000 = (if 2147483648 \<le> v mod 4294967296 then 2147483648 else 0)"
  using int_and_exp [of v 31] bit_int_iff_mod [of v 31] by simp

lemma mod_sub_once: "m \<le> u \<Longrightarrow> u < 2 * m \<Longrightarrow> (u::int) mod m = u - m"
proof -
  assume a: "m \<le> u" "u < 2 * m"
  have "u mod m = (u - m) mod m" by simp
  also from a have "\<dots> = u - m" by (intro mod_pos_pos_trivial) simp_all
  finally show ?thesis .
qed

lemma mod_add_once: "m \<le> u \<Longrightarrow> u < 2 * m \<Longrightarrow> ((u::int) + m) mod (2 * m) = u - m"
proof -
  assume a: "m \<le> u" "u < 2 * m"
  have "(u + m) mod (2 * m) = (u + m - 2 * m) mod (2 * m)" by (simp only: minus_mod_self2)
  also have "\<dots> = (u - m) mod (2 * m)" by simp
  also from a have "\<dots> = u - m" by (intro mod_pos_pos_trivial) simp_all
  finally show ?thesis .
qed

lemma sign_extend_arith:
  fixes v :: int
  defines "u \<equiv> v mod 4294967296"
  shows "u mod 2147483648 - (if 2147483648 \<le> u mod 4294967296 then 2147483648 else 0)
   = (v + 2147483648) mod 4294967296 - 2147483648"
proof -
  have b: "0 \<le> u" "u < 4294967296" by (simp_all add: u_def)
  have s: "(v + 2147483648) mod 4294967296 = (u + 2147483648) mod 4294967296"
    unfolding u_def by (simp add: mod_add_left_eq)
  from b have 3: "u mod 4294967296 = u" by simp
  show ?thesis
  proof (cases "u < 2147483648")
    case True
    with b have "u mod 2147483648 = u"
       "(u + 2147483648) mod 4294967296 = u + 2147483648" by simp_all
    with True s 3 show ?thesis by simp
  next
    case False
    with b have 1: "u mod 2147483648 = u - 2147483648"
      using mod_sub_once [of 2147483648 u] by simp
    from False b have 2: "(u + 2147483648) mod 4294967296 = u - 2147483648"
      using mod_add_once [of 2147483648 u] by simp
    from False 1 2 3 s show ?thesis by simp
  qed
qed

lemma and_not_mask: "(v::int) AND NOT (mask n) = push_bit n (drop_bit n v)"
  by (rule bit_eqI) (auto simp add: bit_simps)

lemma and_not_3: "(v::int) AND NOT 3 = v - v mod 4"
proof -
  have "(3::int) = mask 2" by (simp add: mask_eq_exp_minus_1)
  then have "v AND NOT 3 = push_bit 2 (drop_bit 2 v)" by (simp only: and_not_mask)
  also have "\<dots> = 4 * (v div 4)" by (simp add: push_bit_eq_mult drop_bit_eq_div)
  also have "\<dots> = v - v mod 4" by (simp add: minus_mod_eq_mult_div)
  finally show ?thesis .
qed

subsection \<open>Branch decisions\<close>

lemma to_signed32_sint: "to_signed32 v = Inr (sint (word_of_int v :: 32 word))"
proof -
  have "to_signed32 v =
    Inr ((v mod 4294967296) mod 2147483648
         - (if 2147483648 \<le> (v mod 4294967296) mod 4294967296 then 2147483648 else 0))"
    by (simp add: to_signed32_def sign_extend_def MASK32_def Let_def
        and_FFFFFFFF and_7FFFFFFF and_80000000)
  also have "\<dots> = Inr ((v + 2147483648) mod 4294967296 - 2147483648)"
    by (simp only: sign_extend_arith)
  also have "\<dots> = Inr (sint (word_of_int v :: 32 word))"
    by (simp add: int_word_sint)
  finally show ?thesis .
qed

lemma and_MASK32_uint: "v AND MASK32 = uint (word_of_int v :: 32 word)"
  by (simp add: MASK32_def and_FFFFFFFF uint_word_of_int)

text \<open>
  Claim C6. For all operands, \<open>branch_taken_decision\<close> returns: for \<open>beq\<close> and \<open>bne\<close>
  the equality and the inequality of the raw values; for \<open>blt\<close> and \<open>bge\<close> the signed
  comparison of the operands read as 32-bit two's complement numbers; for \<open>bltu\<close> and
  \<open>bgeu\<close> the unsigned comparison of the operands masked to 32 bits; and for every
  other operation string it raises a \<open>ValidationError\<close>.
\<close>

theorem branch_taken_decision_correct:
  "branch_taken_decision operation a b =
     (if operation = ''beq'' then Inr (a = b)
      else if operation = ''bne'' then Inr (a \<noteq> b)
      else if operation = ''blt''
        then Inr (sint (word_of_int a :: 32 word) < sint (word_of_int b :: 32 word))
      else if operation = ''bge''
        then Inr (sint (word_of_int a :: 32 word) \<ge> sint (word_of_int b :: 32 word))
      else if operation = ''bltu''
        then Inr (uint (word_of_int a :: 32 word) < uint (word_of_int b :: 32 word))
      else if operation = ''bgeu''
        then Inr (uint (word_of_int a :: 32 word) \<ge> uint (word_of_int b :: 32 word))
      else Inl (ValidationError operation))"
proof -
  have s: "to_signed32 a = Inr (sint (word_of_int a :: 32 word))"
          "to_signed32 b = Inr (sint (word_of_int b :: 32 word))"
    by (rule to_signed32_sint)+
  have u: "a AND MASK32 = uint (word_of_int a :: 32 word)"
          "b AND MASK32 = uint (word_of_int b :: 32 word)"
    by (rule and_MASK32_uint)+
  show ?thesis
    unfolding branch_taken_decision_def s u by simp
qed

subsection \<open>The memory model\<close>

lemma and_3_mod: "(k::int) AND 3 = k mod 4"
  using int_and_mask [of k 2] by (simp add: mask_eq_exp_minus_1)

lemma and_FF: "(k::int) AND 0xFF = take_bit 8 k"
proof -
  have "(0xFF::int) = mask 8" by (simp add: mask_eq_exp_minus_1)
  then show ?thesis by (simp only: take_bit_eq_mask)
qed

lemma and_FFFFFFFF_take_bit: "(k::int) AND 0xFFFFFFFF = take_bit 32 k"
  by (simp add: and_FFFFFFFF take_bit_eq_mod)

lemma le_bytes:
  "take_bit 8 (v::int)
     OR push_bit 8 (take_bit 8 (drop_bit 8 v))
     OR push_bit 16 (take_bit 8 (drop_bit 16 v))
     OR push_bit 24 (take_bit 8 (drop_bit 24 v)) = take_bit 32 v"
proof (rule bit_eqI)
  fix n :: nat
  consider "n < 8" | "8 \<le> n" "n < 16" | "16 \<le> n" "n < 24" | "24 \<le> n" "n < 32" | "32 \<le> n"
    by linarith
  then show "bit (take_bit 8 v
     OR push_bit 8 (take_bit 8 (drop_bit 8 v))
     OR push_bit 16 (take_bit 8 (drop_bit 16 v))
     OR push_bit 24 (take_bit 8 (drop_bit 24 v))) n = bit (take_bit 32 v) n"
    by cases (auto simp add: bit_simps)
qed

lemma key_low_bits:
  assumes M: "M AND 3 = (3::int)" and al: "al AND 3 = (0::int)" and i: "0 \<le> i" "i < 4"
  shows "((al + i) AND M) AND 3 = i"
proof -
  have "((al + i) AND M) AND 3 = (al + i) AND (M AND 3)" by (simp add: and.assoc)
  also have "\<dots> = (al + i) AND 3" by (simp only: M)
  also have "\<dots> = (al + i) mod 4" by (simp only: and_3_mod)
  also have "\<dots> = (al mod 4 + i) mod 4" by (simp add: mod_add_left_eq)
  also have "al mod 4 = 0" using al by (simp add: and_3_mod)
  finally show ?thesis using i by simp
qed

lemma keys_distinct:
  assumes M: "M AND 3 = (3::int)" and al: "al AND 3 = (0::int)"
    and i: "0 \<le> i" "i < 4" and j: "0 \<le> j" "j < 4" and ne: "i \<noteq> j"
  shows "(al + i) AND M \<noteq> (al + j) AND M"
proof
  assume "(al + i) AND M = (al + j) AND M"
  then have "((al + i) AND M) AND 3 = ((al + j) AND M) AND 3" by simp
  with key_low_bits [OF M al i] key_low_bits [OF M al j] ne show False by simp
qed


lemma ram_bytes_write_byte:
  "ram_bytes (write_byte cfg m a v) k =
     (if k = a AND MEMORY_ADDRESS_MASK cfg then Some (v AND 0xFF) else ram_bytes m k)"
  by (simp add: write_byte_def)

lemma read_byte_write_byte:
  "read_byte cfg (write_byte cfg m a v) a' =
     (if a' AND MEMORY_ADDRESS_MASK cfg = a AND MEMORY_ADDRESS_MASK cfg then v AND 0xFF
      else read_byte cfg m a')"
  by (simp add: read_byte_def write_byte_def)

lemma read_byte_write_word:
  assumes W: "MEMORY_WORD_ALIGN_MASK cfg AND 3 = 0" and M: "MEMORY_ADDRESS_MASK cfg AND 3 = 3"
    and i: "0 \<le> i" "i < 4"
  shows "read_byte cfg (write_word cfg m a v) ((a AND MEMORY_WORD_ALIGN_MASK cfg) + i) =
           drop_bit (nat (8 * i)) v AND 0xFF"
proof -
  define al where "al = a AND MEMORY_WORD_ALIGN_MASK cfg"
  have al: "al AND 3 = 0"
    unfolding al_def by (simp only: and.assoc W) simp
  note d = keys_distinct [OF M al]
  from i have "i = 0 \<or> i = 1 \<or> i = 2 \<or> i = 3" by auto
  then show ?thesis
    using d [of 0 1] d [of 0 2] d [of 0 3] d [of 1 2] d [of 1 3] d [of 2 3]
          d [of 1 0] d [of 2 0] d [of 3 0] d [of 2 1] d [of 3 1] d [of 3 2]
    by (auto simp add: write_word_def Let_def read_byte_write_byte al_def [symmetric])
qed


lemma read_word_write_word:
  assumes W: "MEMORY_WORD_ALIGN_MASK cfg AND 3 = 0" and M: "MEMORY_ADDRESS_MASK cfg AND 3 = 3"
    and same: "a' AND MEMORY_WORD_ALIGN_MASK cfg = a AND MEMORY_WORD_ALIGN_MASK cfg"
  shows "read_word cfg (write_word cfg m a v) a' = v AND 0xFFFFFFFF"
proof -
  note r = read_byte_write_word [OF W M, of _ m a v]
  have b: "read_byte cfg (write_word cfg m a v) (a AND MEMORY_WORD_ALIGN_MASK cfg) = take_bit 8 v"
       "read_byte cfg (write_word cfg m a v) ((a AND MEMORY_WORD_ALIGN_MASK cfg) + 1)
          = take_bit 8 (drop_bit 8 v)"
       "read_byte cfg (write_word cfg m a v) ((a AND MEMORY_WORD_ALIGN_MASK cfg) + 2)
          = take_bit 8 (drop_bit 16 v)"
       "read_byte cfg (write_word cfg m a v) ((a AND MEMORY_WORD_ALIGN_MASK cfg) + 3)
          = take_bit 8 (drop_bit 24 v)"
    using r [of 0] r [of 1] r [of 2] r [of 3] by (simp_all add: and_FF)
  show ?thesis
    unfolding read_word_def Let_def same b le_bytes and_FFFFFFFF_take_bit ..
qed

lemma ram_bytes_frame:
  "k \<notin> set (written_keys cfg x) \<Longrightarrow> ram_bytes (apply_mem_op cfg m x) k = ram_bytes m k"
  by (cases x) (auto simp add: write_word_def Let_def ram_bytes_write_byte)

lemma ram_bytes_unwritten:
  "ram_bytes m k = None \<Longrightarrow> \<forall>x \<in> set ops. k \<notin> set (written_keys cfg x) \<Longrightarrow>
     ram_bytes (run_mem_ops cfg m ops) k = None"
  unfolding run_mem_ops_def
  by (induction ops arbitrary: m) (simp_all add: ram_bytes_frame)

lemma init_words_run:
  "init_words cfg m i ws =
     run_mem_ops cfg m (map (\<lambda>(j, w). WriteWord (j * 4) w) (zip (map (\<lambda>n. i + int n) [0..<length ws]) ws))"
proof (induction ws arbitrary: m i)
  case Nil
  then show ?case by (simp add: run_mem_ops_def)
next
  case (Cons w ws)
  have "map (\<lambda>n. i + int n) [0..<Suc (length ws)]
          = i # map (\<lambda>n. (i + 1) + int n) [0..<length ws]"
    by (simp add: upt_conv_Cons map_Suc_upt [symmetric] del: upt_Suc) 
  with Cons.IH [of "write_word cfg m (i * 4) w" "i + 1"] show ?case
    by (simp add: run_mem_ops_def del: upt_Suc)
qed


lemma align_down_32:
  assumes W: "W AND 0xFFFFFFFF = (0xFFFFFFFC::int)" and a: "0 \<le> a" "a < 2 ^ 32"
  shows "a AND W = a - a mod 4"
proof -
  have a32: "a AND 0xFFFFFFFF = a" using a by (simp add: and_FFFFFFFF)
  have c: "(0xFFFFFFFC::int) = 0xFFFFFFFF AND NOT 3" by simp
  have "a AND W = (a AND 0xFFFFFFFF) AND W" by (simp only: a32)
  also have "\<dots> = a AND (W AND 0xFFFFFFFF)" by (simp only: ac_simps)
  also have "\<dots> = a AND 0xFFFFFFFC" by (simp only: W)
  also have "\<dots> = (a AND 0xFFFFFFFF) AND NOT 3" by (simp only: c and.assoc)
  also have "\<dots> = a AND NOT 3" by (simp only: a32)
  also have "\<dots> = a - a mod 4" by (rule and_not_3)
  finally show ?thesis .
qed

lemma align_mask_low_bits:
  assumes W: "W AND 0xFFFFFFFF = (0xFFFFFFFC::int)"
  shows "W AND 3 = 0"
proof -
  have "W AND 3 = W AND (0xFFFFFFFF AND 3)" by simp
  also have "\<dots> = (W AND 0xFFFFFFFF) AND 3" by (simp only: and.assoc)
  also have "\<dots> = 0" by (simp only: W) simp
  finally show ?thesis .
qed

lemma alias_above_mask:
  assumes M: "0 \<le> MEMORY_ADDRESS_MASK cfg" "MEMORY_ADDRESS_MASK cfg < 2 ^ n"
  shows "read_byte cfg (write_byte cfg m a v) (a + 2 ^ n) = v AND 0xFF"
proof -
  have "take_bit n (MEMORY_ADDRESS_MASK cfg) = MEMORY_ADDRESS_MASK cfg"
    using M by (simp add: take_bit_int_eq_self)
  then have "(a + 2 ^ n) AND MEMORY_ADDRESS_MASK cfg
               = (a + 2 ^ n) AND take_bit n (MEMORY_ADDRESS_MASK cfg)" by simp
  also have "\<dots> = take_bit n (a + 2 ^ n) AND MEMORY_ADDRESS_MASK cfg"
    by (simp add: take_bit_eq_mask ac_simps)
  also have "take_bit n (a + 2 ^ n) = take_bit n a"
    by (simp add: take_bit_eq_mod)
  also have "take_bit n a AND MEMORY_ADDRESS_MASK cfg
               = a AND take_bit n (MEMORY_ADDRESS_MASK cfg)"
    by (simp add: take_bit_eq_mask ac_simps)
  also have "\<dots> = a AND MEMORY_ADDRESS_MASK cfg"
    using \<open>take_bit n (MEMORY_ADDRESS_MASK cfg) = MEMORY_ADDRESS_MASK cfg\<close> by simp
  finally show ?thesis by (simp add: read_byte_write_byte)
qed


text \<open>
  The claim as the specification words it, that a byte address never written reads as
  0, does not hold: addresses are dictionary keys only after masking, so an address that
  was never written reads the byte stored at any address equal to it modulo the address
  mask. With the address mask \<open>0xFFFF\<close>, after the single store
  \<open>write_byte(5, 0xFF)\<close> the address \<open>0x10005\<close> reads \<open>0xFF\<close>. The lemma
  \<open>alias_above_mask\<close> shows the same for every non-negative address mask.
\<close>

theorem memory_unwritten_alias_counterexample:
  "(0x10005::int) \<noteq> 5
   \<and> read_byte cfg0 (run_mem_ops cfg0 empty_memory [WriteByte 5 0xFF]) 0x10005 = 0xFF"
  by (simp add: run_mem_ops_def read_byte_write_byte cfg0_def)

text \<open>
  Claim C4, as the code has it. A byte reads as 0 when no store has written its address
  modulo the address mask, that is, the dictionary key \<open>b & MEMORY_ADDRESS_MASK\<close>.
  After \<open>write_word a v\<close>, \<open>read_word a\<close> returns \<open>v & 0xFFFFFFFF\<close>, for every
  address and every integer \<open>v\<close>. For a 32-bit address both operations work on the
  address aligned down to a 4-byte boundary, \<open>a - a mod 4\<close>: the store changes the
  dictionary at the four bytes of that word and nowhere else, the four bytes are those
  of \<open>v\<close> in little-endian order (least significant byte at the aligned address), the
  load assembles the same four bytes, and every address of the same word reads the word
  back. The two masks are constants of the module \<open>config\<close>, which is not among the
  sources: the word mask is assumed to be \<open>0xFFFFFFFC\<close> on the low 32 bits, and the
  address mask to keep the two low address bits.
\<close>

theorem memory_read_after_write:
  assumes W: "MEMORY_WORD_ALIGN_MASK cfg AND 0xFFFFFFFF = 0xFFFFFFFC"
    and M: "MEMORY_ADDRESS_MASK cfg AND 3 = 3"
  shows "((\<forall>x \<in> set ops. b AND MEMORY_ADDRESS_MASK cfg \<notin> set (written_keys cfg x)) \<longrightarrow>
            read_byte cfg (run_mem_ops cfg empty_memory ops) b = 0)
       \<and> read_word cfg (write_word cfg m a v) a = v AND 0xFFFFFFFF
       \<and> (0 \<le> a \<and> a < 2 ^ 32 \<longrightarrow>
            a AND MEMORY_WORD_ALIGN_MASK cfg = a - a mod 4
          \<and> ram_bytes (write_word cfg m a v) =
              (ram_bytes m)
                ((a - a mod 4) AND MEMORY_ADDRESS_MASK cfg \<mapsto> v AND 0xFF,
                 (a - a mod 4 + 1) AND MEMORY_ADDRESS_MASK cfg \<mapsto> drop_bit 8 v AND 0xFF,
                 (a - a mod 4 + 2) AND MEMORY_ADDRESS_MASK cfg \<mapsto> drop_bit 16 v AND 0xFF,
                 (a - a mod 4 + 3) AND MEMORY_ADDRESS_MASK cfg \<mapsto> drop_bit 24 v AND 0xFF)
          \<and> read_word cfg m a =
               read_byte cfg m (a - a mod 4)
               OR push_bit 8 (read_byte cfg m (a - a mod 4 + 1))
               OR push_bit 16 (read_byte cfg m (a - a mod 4 + 2))
               OR push_bit 24 (read_byte cfg m (a - a mod 4 + 3))
          \<and> read_byte cfg (write_word cfg m a v) (a - a mod 4) = v AND 0xFF
          \<and> read_byte cfg (write_word cfg m a v) (a - a mod 4 + 1) = drop_bit 8 v AND 0xFF
          \<and> read_byte cfg (write_word cfg m a v) (a - a mod 4 + 2) = drop_bit 16 v AND 0xFF
          \<and> read_byte cfg (write_word cfg m a v) (a - a mod 4 + 3) = drop_bit 24 v AND 0xFF
          \<and> (0 \<le> a' \<and> a' < 2 ^ 32 \<and> a' div 4 = a div 4 \<longrightarrow>
                read_word cfg (write_word cfg m a v) a' = v AND 0xFFFFFFFF)
          \<and> (b AND MEMORY_ADDRESS_MASK cfg \<noteq> (a - a mod 4) AND MEMORY_ADDRESS_MASK cfg
              \<and> b AND MEMORY_ADDRESS_MASK cfg \<noteq> (a - a mod 4 + 1) AND MEMORY_ADDRESS_MASK cfg
              \<and> b AND MEMORY_ADDRESS_MASK cfg \<noteq> (a - a mod 4 + 2) AND MEMORY_ADDRESS_MASK cfg
              \<and> b AND MEMORY_ADDRESS_MASK cfg \<noteq> (a - a mod 4 + 3) AND MEMORY_ADDRESS_MASK cfg
              \<longrightarrow> read_byte cfg (write_word cfg m a v) b = read_byte cfg m b))"
proof -
  note W3 = align_mask_low_bits [OF W]
  have unwritten: "read_byte cfg (run_mem_ops cfg empty_memory ops) b = 0"
    if "\<forall>x \<in> set ops. b AND MEMORY_ADDRESS_MASK cfg \<notin> set (written_keys cfg x)"
  proof -
    have "ram_bytes empty_memory (b AND MEMORY_ADDRESS_MASK cfg) = None"
      by (simp add: empty_memory_def)
    from ram_bytes_unwritten [OF this that] show ?thesis
      by (simp add: read_byte_def)
  qed
  have roundtrip: "read_word cfg (write_word cfg m a v) a = v AND 0xFFFFFFFF"
    by (rule read_word_write_word [OF W3 M refl])
  have in_range: "a AND MEMORY_WORD_ALIGN_MASK cfg = a - a mod 4
          \<and> ram_bytes (write_word cfg m a v) =
              (ram_bytes m)
                ((a - a mod 4) AND MEMORY_ADDRESS_MASK cfg \<mapsto> v AND 0xFF,
                 (a - a mod 4 + 1) AND MEMORY_ADDRESS_MASK cfg \<mapsto> drop_bit 8 v AND 0xFF,
                 (a - a mod 4 + 2) AND MEMORY_ADDRESS_MASK cfg \<mapsto> drop_bit 16 v AND 0xFF,
                 (a - a mod 4 + 3) AND MEMORY_ADDRESS_MASK cfg \<mapsto> drop_bit 24 v AND 0xFF)
          \<and> read_word cfg m a =
               read_byte cfg m (a - a mod 4)
               OR push_bit 8 (read_byte cfg m (a - a mod 4 + 1))
               OR push_bit 16 (read_byte cfg m (a - a mod 4 + 2))
               OR push_bit 24 (read_byte cfg m (a - a mod 4 + 3))
          \<and> read_byte cfg (write_word cfg m a v) (a - a mod 4) = v AND 0xFF
          \<and> read_byte cfg (write_word cfg m a v) (a - a mod 4 + 1) = drop_bit 8 v AND 0xFF
          \<and> read_byte cfg (write_word cfg m a v) (a - a mod 4 + 2) = drop_bit 16 v AND 0xFF
          \<and> read_byte cfg (write_word cfg m a v) (a - a mod 4 + 3) = drop_bit 24 v AND 0xFF
          \<and> (0 \<le> a' \<and> a' < 2 ^ 32 \<and> a' div 4 = a div 4 \<longrightarrow>
                read_word cfg (write_word cfg m a v) a' = v AND 0xFFFFFFFF)
          \<and> (b AND MEMORY_ADDRESS_MASK cfg \<noteq> (a - a mod 4) AND MEMORY_ADDRESS_MASK cfg
              \<and> b AND MEMORY_ADDRESS_MASK cfg \<noteq> (a - a mod 4 + 1) AND MEMORY_ADDRESS_MASK cfg
              \<and> b AND MEMORY_ADDRESS_MASK cfg \<noteq> (a - a mod 4 + 2) AND MEMORY_ADDRESS_MASK cfg
              \<and> b AND MEMORY_ADDRESS_MASK cfg \<noteq> (a - a mod 4 + 3) AND MEMORY_ADDRESS_MASK cfg
              \<longrightarrow> read_byte cfg (write_word cfg m a v) b = read_byte cfg m b)"
    if a: "0 \<le> a" "a < 2 ^ 32"
  proof -
    have al: "a AND MEMORY_WORD_ALIGN_MASK cfg = a - a mod 4"
      using W a by (rule align_down_32)
    have ram: "ram_bytes (write_word cfg m a v) =
              (ram_bytes m)
                ((a - a mod 4) AND MEMORY_ADDRESS_MASK cfg \<mapsto> v AND 0xFF,
                 (a - a mod 4 + 1) AND MEMORY_ADDRESS_MASK cfg \<mapsto> drop_bit 8 v AND 0xFF,
                 (a - a mod 4 + 2) AND MEMORY_ADDRESS_MASK cfg \<mapsto> drop_bit 16 v AND 0xFF,
                 (a - a mod 4 + 3) AND MEMORY_ADDRESS_MASK cfg \<mapsto> drop_bit 24 v AND 0xFF)"
      by (simp add: write_word_def Let_def write_byte_def al and_FF)
    have rd: "read_word cfg m a =
               read_byte cfg m (a - a mod 4)
               OR push_bit 8 (read_byte cfg m (a - a mod 4 + 1))
               OR push_bit 16 (read_byte cfg m (a - a mod 4 + 2))
               OR push_bit 24 (read_byte cfg m (a - a mod 4 + 3))"
      by (simp add: read_word_def Let_def al)
    note r = read_byte_write_word [OF W3 M, of _ m a v, unfolded al]
    have b0: "read_byte cfg (write_word cfg m a v) (a - a mod 4) = v AND 0xFF"
      using r [of 0] by simp
    have b1: "read_byte cfg (write_word cfg m a v) (a - a mod 4 + 1) = drop_bit 8 v AND 0xFF"
      using r [of 1] by simp
    have b2: "read_byte cfg (write_word cfg m a v) (a - a mod 4 + 2) = drop_bit 16 v AND 0xFF"
      using r [of 2] by simp
    have b3: "read_byte cfg (write_word cfg m a v) (a - a mod 4 + 3) = drop_bit 24 v AND 0xFF"
      using r [of 3] by simp
    have same: "read_word cfg (write_word cfg m a v) a' = v AND 0xFFFFFFFF"
      if a': "0 \<le> a'" "a' < 2 ^ 32" and d: "a' div 4 = a div 4"
    proof -
      have "a' AND MEMORY_WORD_ALIGN_MASK cfg = a' - a' mod 4"
        using W a' by (rule align_down_32)
      also have "\<dots> = 4 * (a' div 4)" by (simp add: minus_mod_eq_mult_div)
      also have "\<dots> = 4 * (a div 4)" by (simp only: d)
      also have "\<dots> = a - a mod 4" by (simp add: minus_mod_eq_mult_div)
      finally have "a' AND MEMORY_WORD_ALIGN_MASK cfg = a AND MEMORY_WORD_ALIGN_MASK cfg"
        by (simp only: al)
      then show ?thesis by (rule read_word_write_word [OF W3 M])
    qed
    have frame: "read_byte cfg (write_word cfg m a v) b = read_byte cfg m b"
      if "b AND MEMORY_ADDRESS_MASK cfg \<noteq> (a - a mod 4) AND MEMORY_ADDRESS_MASK cfg"
         "b AND MEMORY_ADDRESS_MASK cfg \<noteq> (a - a mod 4 + 1) AND MEMORY_ADDRESS_MASK cfg"
         "b AND MEMORY_ADDRESS_MASK cfg \<noteq> (a - a mod 4 + 2) AND MEMORY_ADDRESS_MASK cfg"
         "b AND MEMORY_ADDRESS_MASK cfg \<noteq> (a - a mod 4 + 3) AND MEMORY_ADDRESS_MASK cfg"
      using that by (simp add: read_byte_def ram)
    have same': "0 \<le> a' \<and> a' < 2 ^ 32 \<and> a' div 4 = a div 4 \<longrightarrow>
                read_word cfg (write_word cfg m a v) a' = v AND 0xFFFFFFFF"
      using same by blast
    have frame': "b AND MEMORY_ADDRESS_MASK cfg \<noteq> (a - a mod 4) AND MEMORY_ADDRESS_MASK cfg
              \<and> b AND MEMORY_ADDRESS_MASK cfg \<noteq> (a - a mod 4 + 1) AND MEMORY_ADDRESS_MASK cfg
              \<and> b AND MEMORY_ADDRESS_MASK cfg \<noteq> (a - a mod 4 + 2) AND MEMORY_ADDRESS_MASK cfg
              \<and> b AND MEMORY_ADDRESS_MASK cfg \<noteq> (a - a mod 4 + 3) AND MEMORY_ADDRESS_MASK cfg
              \<longrightarrow> read_byte cfg (write_word cfg m a v) b = read_byte cfg m b"
      using frame by blast
    show ?thesis
      by (intro conjI) (fact al ram rd b0 b1 b2 b3 same' frame')+
  qed
  show ?thesis
  proof (intro conjI)
    show "(\<forall>x \<in> set ops. b AND MEMORY_ADDRESS_MASK cfg \<notin> set (written_keys cfg x)) \<longrightarrow>
            read_byte cfg (run_mem_ops cfg empty_memory ops) b = 0"
      using unwritten by (rule impI)
  qed (rule roundtrip, rule impI, elim conjE, rule in_range)
qed

theorem memory_read_after_write_witness:
  "MEMORY_WORD_ALIGN_MASK cfg0 AND 0xFFFFFFFF = 0xFFFFFFFC
   \<and> MEMORY_ADDRESS_MASK cfg0 AND 3 = 3
   \<and> read_byte cfg0 (run_mem_ops cfg0 empty_memory [WriteWord 0x100 0x12345678]) 0x104 = 0
   \<and> read_word cfg0 (write_word cfg0 empty_memory 0x103 0x1DEADBEEF) 0x103 = 0xDEADBEEF
   \<and> 0x103 AND MEMORY_WORD_ALIGN_MASK cfg0 = 0x100
   \<and> read_word cfg0 (write_word cfg0 empty_memory 0x103 0x1DEADBEEF) 0x101 = 0xDEADBEEF
   \<and> read_byte cfg0 (write_word cfg0 empty_memory 0x103 0x1DEADBEEF) 0x100 = 0xEF
   \<and> read_byte cfg0 (write_word cfg0 empty_memory 0x103 0x1DEADBEEF) 0x103 = 0xDE
   \<and> read_byte cfg0 (write_word cfg0 empty_memory 0x103 0x1DEADBEEF) 0x104 = 0"
proof -
  have W: "MEMORY_WORD_ALIGN_MASK cfg0 AND 0xFFFFFFFF = 0xFFFFFFFC"
    and M: "MEMORY_ADDRESS_MASK cfg0 AND 3 = 3"
    by (simp_all add: cfg0_def)
  have e: "read_byte cfg0 empty_memory 0x104 = 0"
    by (simp add: read_byte_def empty_memory_def)
  from memory_read_after_write [OF W M, of "[WriteWord 0x100 0x12345678]" "0x104"
      empty_memory "0x103" "0x1DEADBEEF" "0x101"] W M e
  show ?thesis
    by (simp add: cfg0_def)
qed


lemma byte_range: "0 \<le> (v::int) AND 0xFF \<and> v AND 0xFF \<le> 255"
proof -
  have "v AND 0xFF = v mod 256"
    using int_and_mask [of v 8] by (simp add: mask_eq_exp_minus_1)
  then show ?thesis by simp
qed

lemma ram_inv_write_byte:
  assumes "ram_inv cfg m"
  shows "ram_inv cfg (write_byte cfg m a v)"
  unfolding ram_inv_def
proof (intro allI impI)
  fix k b
  assume s: "ram_bytes (write_byte cfg m a v) k = Some b"
  show "k = k AND MEMORY_ADDRESS_MASK cfg \<and> 0 \<le> b \<and> b \<le> 255"
  proof (cases "k = a AND MEMORY_ADDRESS_MASK cfg")
    case True
    with s have "b = v AND 0xFF" by (simp add: ram_bytes_write_byte)
    with True byte_range [of v] show ?thesis by (simp add: and.assoc)
  next
    case False
    with s have "ram_bytes m k = Some b" by (simp add: ram_bytes_write_byte)
    with assms show ?thesis unfolding ram_inv_def by blast
  qed
qed

lemma ram_inv_write_word:
  "ram_inv cfg m \<Longrightarrow> ram_inv cfg (write_word cfg m a v)"
  by (simp add: write_word_def Let_def ram_inv_write_byte)

lemma ram_inv_apply_mem_op:
  "ram_inv cfg m \<Longrightarrow> ram_inv cfg (apply_mem_op cfg m x)"
  by (cases x) (simp_all add: ram_inv_write_byte ram_inv_write_word)

lemma ram_inv_run_mem_ops:
  "ram_inv cfg m \<Longrightarrow> ram_inv cfg (run_mem_ops cfg m ops)"
  unfolding run_mem_ops_def
  by (induction ops arbitrary: m) (simp_all add: ram_inv_apply_mem_op)

lemma ram_inv_empty: "ram_inv cfg empty_memory"
  by (simp add: ram_inv_def empty_memory_def)

lemma ram_inv_init: "ram_inv cfg (MemoryModel_init cfg dut_words)"
  unfolding MemoryModel_init_def init_words_run
  by (rule ram_inv_run_mem_ops) (rule ram_inv_empty)

text \<open>
  Claim C9. Every access masks its address with \<open>MEMORY_ADDRESS_MASK\<close>: in every state
  the model reaches from its constructor by byte and word stores, each key of the
  dictionary is a masked address and each stored value is a byte; each store keeps that
  invariant; and a read or a write at any address is the read or write at its masked
  address. No access raises: the model functions are total and return no error.
\<close>

theorem memory_addresses_masked:
  "ram_inv cfg (run_mem_ops cfg (MemoryModel_init cfg dut_words) ops)
   \<and> (ram_inv cfg m \<longrightarrow> ram_inv cfg (write_byte cfg m a v) \<and> ram_inv cfg (write_word cfg m a v))
   \<and> read_byte cfg m a = read_byte cfg m (a AND MEMORY_ADDRESS_MASK cfg)
   \<and> write_byte cfg m a v = write_byte cfg m (a AND MEMORY_ADDRESS_MASK cfg) v"
proof -
  have "ram_inv cfg (run_mem_ops cfg (MemoryModel_init cfg dut_words) ops)"
    by (rule ram_inv_run_mem_ops) (rule ram_inv_init)
  moreover have "read_byte cfg m a = read_byte cfg m (a AND MEMORY_ADDRESS_MASK cfg)"
    by (simp add: read_byte_def and.assoc)
  moreover have "write_byte cfg m a v = write_byte cfg m (a AND MEMORY_ADDRESS_MASK cfg) v"
    by (simp add: write_byte_def and.assoc)
  ultimately show ?thesis
    by (simp add: ram_inv_write_byte ram_inv_write_word)
qed

theorem memory_addresses_masked_witness:
  "ram_inv cfg0 (run_mem_ops cfg0 (MemoryModel_init cfg0 [0x11223344]) [WriteByte 0x10005 0x1FF])
   \<and> ram_inv cfg0 (write_byte cfg0 empty_memory 0x10005 0x1FF)
   \<and> ram_inv cfg0 (write_word cfg0 empty_memory 0x10005 0x1FF)
   \<and> read_byte cfg0 (write_byte cfg0 empty_memory 5 0x1FF) 0x10005 = 0xFF
   \<and> write_byte cfg0 empty_memory 0x10005 0x1FF = write_byte cfg0 empty_memory 5 0x1FF"
proof -
  have e: "ram_inv cfg0 empty_memory" by (rule ram_inv_empty)
  have r: "read_byte cfg0 (write_byte cfg0 empty_memory 5 0x1FF) 5 = 0xFF"
    by (simp add: read_byte_def write_byte_def cfg0_def)
  have k: "0x10005 AND MEMORY_ADDRESS_MASK cfg0 = 5" by (simp add: cfg0_def)
  note t1 = memory_addresses_masked [of cfg0 "[0x11223344]" "[WriteByte 0x10005 0x1FF]"
      empty_memory "0x10005" "0x1FF"]
  note t2 = memory_addresses_masked [of cfg0 "[]" "[]"
      "write_byte cfg0 empty_memory 5 0x1FF" "0x10005" "0x1FF"]
  from t1 have 1: "ram_inv cfg0
      (run_mem_ops cfg0 (MemoryModel_init cfg0 [0x11223344]) [WriteByte 0x10005 0x1FF])"
    by (rule conjunct1)
  from t1 e have 2: "ram_inv cfg0 (write_byte cfg0 empty_memory 0x10005 0x1FF)"
    and 3: "ram_inv cfg0 (write_word cfg0 empty_memory 0x10005 0x1FF)"
    by blast+
  from t2 have "read_byte cfg0 (write_byte cfg0 empty_memory 5 0x1FF) 0x10005
      = read_byte cfg0 (write_byte cfg0 empty_memory 5 0x1FF) (0x10005 AND MEMORY_ADDRESS_MASK cfg0)"
    by blast
  with r have 4: "read_byte cfg0 (write_byte cfg0 empty_memory 5 0x1FF) 0x10005 = 0xFF"
    by (simp only: k)
  from t1 have "write_byte cfg0 empty_memory 0x10005 0x1FF
      = write_byte cfg0 empty_memory (0x10005 AND MEMORY_ADDRESS_MASK cfg0) 0x1FF"
    by blast
  then have 5: "write_byte cfg0 empty_memory 0x10005 0x1FF = write_byte cfg0 empty_memory 5 0x1FF"
    by (simp only: k)
  from 1 2 3 4 5 show ?thesis by blast
qed

subsection \<open>The memory-write monitor\<close>

lemma monitor_step_idle:
  "o_data_mem_per_byte_wr_en i AND 0xF = 0 \<Longrightarrow> monitor_step i q = (None, q)"
  by (simp add: monitor_step_def Let_def)

lemma monitor_loop_idle:
  "\<forall>i \<in> set idles. o_data_mem_per_byte_wr_en i AND 0xF = 0 \<Longrightarrow>
     monitor_loop (idles @ rest) q = monitor_loop rest q"
  by (induction idles) (simp_all add: monitor_step_idle)

lemma monitor_loop_append:
  "monitor_loop (xs @ ys) q =
     (case monitor_loop xs q of
        (Some e, q') \<Rightarrow> (Some e, q')
      | (None, q') \<Rightarrow> monitor_loop ys q')"
proof (induction xs arbitrary: q)
  case Nil
  then show ?case by simp
next
  case (Cons x xs)
  show ?case
  proof -
    obtain r q' where "monitor_step x q = (r, q')" by (cases "monitor_step x q")
    then show ?thesis using Cons.IH [of q'] by (cases r) simp_all
  qed
qed


text \<open>
  Claim C8. The monitoring loop skips every cycle in which the design signals no write
  (byte-enable mask 0) and leaves the queues as they are. At the first cycle that signals
  a write (a non-zero mask), whatever came before: if the queue of expected addresses is
  empty, the monitor raises an \<open>AssertionError\<close> that reports the unexpected write with
  the observed address, data and mask, and the loop stops there, so the write is never
  ignored; if the queues are non-empty, it pops the oldest entry of each and raises on
  an address mismatch or on a data mismatch, and when both match it goes on with the
  rest. The prefix of the trace is either a run of idle cycles or any run of the loop
  that raised nothing and left the queues in the given state. (With an expected address
  but no expected data the second \<open>pop\<close> raises an \<open>IndexError\<close>.)
\<close>

theorem monitor_unexpected_write:
  assumes en: "o_data_mem_per_byte_wr_en s AND 0xF \<noteq> 0"
    and idle: "\<forall>i \<in> set idles. o_data_mem_per_byte_wr_en i AND 0xF = 0"
  shows "monitor_loop (idles @ rest) q = monitor_loop rest q
       \<and> monitor_step s (dq, []) =
           (Some (AssertionError (UnexpectedWrite (o_data_mem_addr s AND MASK32)
                    (o_data_mem_wr_data s AND MASK32) (o_data_mem_per_byte_wr_en s AND 0xF))),
            (dq, []))
       \<and> monitor_loop (idles @ s # ss) (dq, []) = monitor_step s (dq, [])
       \<and> (monitor_loop pre q0 = (None, (dq, [])) \<longrightarrow>
            monitor_loop (pre @ s # ss) q0 = monitor_step s (dq, []))
       \<and> monitor_step s (exp_data # data_rest, exp_addr # addr_rest) =
           (if o_data_mem_addr s AND MASK32 \<noteq> exp_addr
              then Some (AssertionError (AddressMismatch (o_data_mem_addr s AND MASK32) exp_addr))
            else if o_data_mem_wr_data s AND MASK32 \<noteq> exp_data
              then Some (AssertionError (DataMismatch (o_data_mem_addr s AND MASK32)
                     (o_data_mem_wr_data s AND MASK32) exp_data))
            else None,
            (data_rest, addr_rest))
       \<and> monitor_loop (idles @ s # ss) (exp_data # data_rest, exp_addr # addr_rest) =
           (if o_data_mem_addr s AND MASK32 = exp_addr \<and> o_data_mem_wr_data s AND MASK32 = exp_data
            then monitor_loop ss (data_rest, addr_rest)
            else monitor_step s (exp_data # data_rest, exp_addr # addr_rest))
       \<and> (monitor_loop pre q0 = (None, (exp_data # data_rest, exp_addr # addr_rest)) \<longrightarrow>
            monitor_loop (pre @ s # ss) q0 =
              (if o_data_mem_addr s AND MASK32 = exp_addr
                    \<and> o_data_mem_wr_data s AND MASK32 = exp_data
               then monitor_loop ss (data_rest, addr_rest)
               else monitor_step s (exp_data # data_rest, exp_addr # addr_rest)))
       \<and> monitor_step s ([], exp_addr # addr_rest) = (Some IndexError, ([], addr_rest))"
proof -
  have skip: "monitor_loop (idles @ xs) q' = monitor_loop xs q'" for xs q'
    using idle by (rule monitor_loop_idle)
  have empty: "monitor_step s (dq, []) =
           (Some (AssertionError (UnexpectedWrite (o_data_mem_addr s AND MASK32)
                    (o_data_mem_wr_data s AND MASK32) (o_data_mem_per_byte_wr_en s AND 0xF))),
            (dq, []))"
    using en by (simp add: monitor_step_def Let_def)
  have nonempty: "monitor_step s (exp_data # data_rest, exp_addr # addr_rest) =
           (if o_data_mem_addr s AND MASK32 \<noteq> exp_addr
              then Some (AssertionError (AddressMismatch (o_data_mem_addr s AND MASK32) exp_addr))
            else if o_data_mem_wr_data s AND MASK32 \<noteq> exp_data
              then Some (AssertionError (DataMismatch (o_data_mem_addr s AND MASK32)
                     (o_data_mem_wr_data s AND MASK32) exp_data))
            else None,
            (data_rest, addr_rest))"
    using en by (simp add: monitor_step_def Let_def)
  have stop1: "monitor_loop (s # ss) (dq, []) = monitor_step s (dq, [])"
    by (simp add: empty)
  have go1: "monitor_loop (s # ss) (exp_data # data_rest, exp_addr # addr_rest) =
           (if o_data_mem_addr s AND MASK32 = exp_addr \<and> o_data_mem_wr_data s AND MASK32 = exp_data
            then monitor_loop ss (data_rest, addr_rest)
            else monitor_step s (exp_data # data_rest, exp_addr # addr_rest))"
    by (simp add: nonempty)
  have stop: "monitor_loop (idles @ s # ss) (dq, []) = monitor_step s (dq, [])"
    by (simp only: skip stop1)
  have go: "monitor_loop (idles @ s # ss) (exp_data # data_rest, exp_addr # addr_rest) =
           (if o_data_mem_addr s AND MASK32 = exp_addr \<and> o_data_mem_wr_data s AND MASK32 = exp_data
            then monitor_loop ss (data_rest, addr_rest)
            else monitor_step s (exp_data # data_rest, exp_addr # addr_rest))"
    by (simp only: skip go1)
  have pre_stop: "monitor_loop (pre @ s # ss) q0 = monitor_step s (dq, [])"
    if "monitor_loop pre q0 = (None, (dq, []))"
    by (simp add: monitor_loop_append [of pre] that empty)
  have pre_go: "monitor_loop (pre @ s # ss) q0 =
              (if o_data_mem_addr s AND MASK32 = exp_addr
                    \<and> o_data_mem_wr_data s AND MASK32 = exp_data
               then monitor_loop ss (data_rest, addr_rest)
               else monitor_step s (exp_data # data_rest, exp_addr # addr_rest))"
    if "monitor_loop pre q0 = (None, (exp_data # data_rest, exp_addr # addr_rest))"
    by (simp add: monitor_loop_append [of pre] that nonempty)
  have index: "monitor_step s ([], exp_addr # addr_rest) = (Some IndexError, ([], addr_rest))"
    using en by (simp add: monitor_step_def Let_def)
  from skip [of rest q] empty stop pre_stop nonempty go pre_go index show ?thesis
    by (intro conjI impI)
qed

theorem monitor_unexpected_write_witness:
  "o_data_mem_per_byte_wr_en sample0 AND 0xF \<noteq> 0
   \<and> o_data_mem_per_byte_wr_en (sample0\<lparr>o_data_mem_per_byte_wr_en := 0x10\<rparr>) AND 0xF = 0
   \<and> monitor_loop [sample0\<lparr>o_data_mem_per_byte_wr_en := 0x10\<rparr>, sample0, sample0] ([], []) =
        (Some (AssertionError (UnexpectedWrite 0x100 0xDEADBEEF 0xF)), ([], []))
   \<and> monitor_loop [sample0\<lparr>o_data_mem_per_byte_wr_en := 0x10\<rparr>, sample0]
        ([0xDEADBEEF], [0x100]) = (None, ([], []))
   \<and> monitor_loop [sample0, sample0\<lparr>o_data_mem_per_byte_wr_en := 0x10\<rparr>, sample0]
        ([0xDEADBEEF], [0x100]) =
        (Some (AssertionError (UnexpectedWrite 0x100 0xDEADBEEF 0xF)), ([], []))
   \<and> monitor_step sample0 ([0xDEADBEEF, 7], [0x100, 0x104]) = (None, ([7], [0x104]))
   \<and> monitor_step sample0 ([0xDEADBEEF, 7], [0x104, 0x100]) =
        (Some (AssertionError (AddressMismatch 0x100 0x104)), ([7], [0x100]))
   \<and> monitor_step sample0 ([7, 0xDEADBEEF], [0x100, 0x104]) =
        (Some (AssertionError (DataMismatch 0x100 0xDEADBEEF 7)), ([0xDEADBEEF], [0x104]))"
proof -
  define idle where "idle = sample0\<lparr>o_data_mem_per_byte_wr_en := 0x10\<rparr>"
  have en: "o_data_mem_per_byte_wr_en sample0 AND 0xF \<noteq> 0"
    by (simp add: sample0_def)
  have idle: "\<forall>i \<in> set [idle]. o_data_mem_per_byte_wr_en i AND 0xF = 0"
    by (simp add: idle_def)
  have v: "o_data_mem_addr sample0 AND MASK32 = 0x100"
          "o_data_mem_wr_data sample0 AND MASK32 = 0xDEADBEEF"
          "o_data_mem_per_byte_wr_en sample0 AND 0xF = 0xF"
    by (simp_all add: sample0_def MASK32_def)
  note t = monitor_unexpected_write [OF en idle]
  note skip = t [THEN conjunct1]
  note empty = t [THEN conjunct2, THEN conjunct1]
  note stop = t [THEN conjunct2, THEN conjunct2, THEN conjunct1]
  note pre_stop = t [THEN conjunct2, THEN conjunct2, THEN conjunct2, THEN conjunct1, rule_format]
  note nonempty = t [THEN conjunct2, THEN conjunct2, THEN conjunct2, THEN conjunct2,
      THEN conjunct1]
  note go = t [THEN conjunct2, THEN conjunct2, THEN conjunct2, THEN conjunct2,
      THEN conjunct2, THEN conjunct1]
  have e: "monitor_step sample0 ([], []) =
             (Some (AssertionError (UnexpectedWrite 0x100 0xDEADBEEF 0xF)), ([], []))"
    by (simp only: empty v)
  have c1: "monitor_loop [idle, sample0, sample0] ([], []) =
        (Some (AssertionError (UnexpectedWrite 0x100 0xDEADBEEF 0xF)), ([], []))"
    using stop [of "[sample0]" "[]"] by (simp only: e append_Cons append_Nil)
  have c2: "monitor_loop [idle, sample0] ([0xDEADBEEF], [0x100]) = (None, ([], []))"
    using go [of "[]" "0xDEADBEEF" "[]" "0x100" "[]"] by (simp add: v del: monitor_loop.simps(2))
  have i: "monitor_loop [idle] ([], []) = (None, ([], []))"
    using skip [of "[]" "([], [])"] by (simp del: monitor_loop.simps(2))
  have none: "\<forall>i \<in> set []. o_data_mem_per_byte_wr_en i AND 0xF = 0"
    by simp
  note go0 = monitor_unexpected_write [OF en none, THEN conjunct2, THEN conjunct2,
      THEN conjunct2, THEN conjunct2, THEN conjunct2, THEN conjunct1]
  have p: "monitor_loop [sample0, idle] ([0xDEADBEEF], [0x100]) = (None, ([], []))"
    using go0 [of "[idle]" "0xDEADBEEF" "[]" "0x100" "[]"]
    by (simp add: v i del: monitor_loop.simps(2))
  have c3: "monitor_loop [sample0, idle, sample0] ([0xDEADBEEF], [0x100]) =
        (Some (AssertionError (UnexpectedWrite 0x100 0xDEADBEEF 0xF)), ([], []))"
    using pre_stop [OF p, of "[]"] by (simp only: e append_Cons append_Nil)
  have c4: "monitor_step sample0 ([0xDEADBEEF, 7], [0x100, 0x104]) = (None, ([7], [0x104]))"
    by (simp add: nonempty v)
  have c5: "monitor_step sample0 ([0xDEADBEEF, 7], [0x104, 0x100]) =
        (Some (AssertionError (AddressMismatch 0x100 0x104)), ([7], [0x100]))"
    by (simp add: nonempty v)
  have c6: "monitor_step sample0 ([7, 0xDEADBEEF], [0x100, 0x104]) =
        (Some (AssertionError (DataMismatch 0x100 0xDEADBEEF 7)), ([0xDEADBEEF], [0x104]))"
    by (simp add: nonempty v)
  have idle0: "o_data_mem_per_byte_wr_en idle AND 0xF = 0"
    by (simp add: idle_def)
  from en idle0 c1 c2 c3 c4 c5 c6 show ?thesis
    unfolding idle_def by (intro conjI)
qed

subsection \<open>Classification of bit patterns\<close>

lemma field_gen: "drop_bit m ((b::int) AND push_bit m (mask n)) = take_bit n (drop_bit m b)"
  by (rule bit_eqI) (auto simp add: bit_simps)

lemma exp_field: "drop_bit 23 ((b::int) AND 0x7F800000) = (b div 2 ^ 23) mod 2 ^ 8"
proof -
  have "(0x7F800000::int) = push_bit 23 (mask 8)"
    by (simp add: mask_eq_exp_minus_1 push_bit_eq_mult)
  then have "drop_bit 23 (b AND 0x7F800000) = take_bit 8 (drop_bit 23 b)"
    by (simp only: field_gen)
  then show ?thesis by (simp add: take_bit_eq_mod drop_bit_eq_div)
qed

lemma mant_field: "(b::int) AND 0x007FFFFF = b mod 2 ^ 23"
  using int_and_mask [of b 23] by (simp add: mask_eq_exp_minus_1)

lemma sign_field: "(b::int) AND 0x80000000 \<noteq> 0 \<longleftrightarrow> bit b 31"
  using int_and_exp [of b 31] by simp

lemma quiet_field: "((b::int) mod 2 ^ 23) AND 0x00400000 \<noteq> 0 \<longleftrightarrow> bit b 22"
proof -
  have "(b mod 2 ^ 23) AND 0x00400000 \<noteq> 0 \<longleftrightarrow> bit (take_bit 23 b) 22"
    using int_and_exp [of "b mod 2 ^ 23" 22] by (simp add: take_bit_eq_mod)
  then show ?thesis by (simp add: bit_simps)
qed


lemma fclass_fields:
  fixes w :: "32 word"
  shows "drop_bit 23 (uint w AND FP_EXP_MASK) = int (ieee_exponent w)"
    and "uint w AND FP_MANT_MASK = int (ieee_fraction w)"
    and "is_negative (uint w) \<longleftrightarrow> ieee_sign w = 1"
    and "int (ieee_fraction w) AND 0x00400000 \<noteq> 0 \<longleftrightarrow> ieee_fraction w div 2 ^ 22 = 1"
proof -
  have u: "uint w = int (unat w)" by simp
  show "drop_bit 23 (uint w AND FP_EXP_MASK) = int (ieee_exponent w)"
    unfolding FP_EXP_MASK_def exp_field ieee_exponent_def u
    by (simp add: zdiv_int zmod_int)
  show m: "uint w AND FP_MANT_MASK = int (ieee_fraction w)"
    unfolding FP_MANT_MASK_def mant_field ieee_fraction_def u
    by (simp add: zmod_int)
  have lt: "unat w < 2 ^ 32" using unsigned_less [of w, where ?'a = nat] by simp
  then have d: "unat w div 2 ^ 31 < 2" by (simp add: less_mult_imp_div_less)
  have "is_negative (uint w) \<longleftrightarrow> bit (unat w) 31"
    unfolding is_negative_def FP_SIGN_MASK_def sign_field u by (simp add: bit_simps)
  also have "\<dots> \<longleftrightarrow> odd (unat w div 2 ^ 31)" by (simp add: bit_iff_odd)
  also from d have "\<dots> \<longleftrightarrow> unat w div 2 ^ 31 = 1" by (auto elim: oddE)
  finally show "is_negative (uint w) \<longleftrightarrow> ieee_sign w = 1"
    by (simp add: ieee_sign_def)
  have f: "ieee_fraction w < 2 ^ 23" by (simp add: ieee_fraction_def)
  then have d2: "ieee_fraction w div 2 ^ 22 < 2" by (simp add: less_mult_imp_div_less)
  have "int (ieee_fraction w) AND 0x00400000 \<noteq> 0 \<longleftrightarrow> bit (int (ieee_fraction w)) 22"
    using int_and_exp [of "int (ieee_fraction w)" 22] by simp
  also have "\<dots> \<longleftrightarrow> bit (ieee_fraction w) 22" by (simp add: bit_simps)
  also have "\<dots> \<longleftrightarrow> odd (ieee_fraction w div 2 ^ 22)" by (simp add: bit_iff_odd)
  also from d2 have "\<dots> \<longleftrightarrow> ieee_fraction w div 2 ^ 22 = 1" by (auto elim: oddE)
  finally show "int (ieee_fraction w) AND 0x00400000 \<noteq> 0 \<longleftrightarrow> ieee_fraction w div 2 ^ 22 = 1" .
qed

text \<open>
  Claim C7. For every 32-bit pattern, \<open>fclass_s\<close> returns a one-hot mask: exactly one
  bit is set, it is one of the bits 0 to 9, and it is the bit of the category of the
  input (minus infinity, negative normal, negative subnormal, minus zero, plus zero,
  positive subnormal, positive normal, plus infinity, signalling NaN, quiet NaN).
\<close>

theorem fclass_s_one_hot:
  fixes w :: "32 word"
  shows "fclass_s (uint w) = 2 ^ category_bit (ieee_category w)
       \<and> (\<exists>i<10. fclass_s (uint w) = 2 ^ i)
       \<and> (\<exists>i<10. \<forall>j. bit (fclass_s (uint w)) j = (j = i))"
proof -
  have e: "fclass_s (uint w) = 2 ^ category_bit (ieee_category w)"
    unfolding fclass_s_def Let_def fclass_fields ieee_category_def
    by simp
  have lt: "category_bit c < 10" for c by (cases c) simp_all
  have one: "\<exists>i<10. fclass_s (uint w) = 2 ^ i"
    using e lt by blast
  have "\<forall>j. bit (fclass_s (uint w)) j = (j = category_bit (ieee_category w))"
    unfolding e by (simp add: bit_exp_iff)
  with lt have "\<exists>i<10. \<forall>j. bit (fclass_s (uint w)) j = (j = i)" by blast
  with e one show ?thesis by blast
qed

subsection \<open>Division: the special cases\<close>

lemma uint_and_MASK32: "uint (w :: 32 word) AND MASK32 = uint w"
proof -
  have "uint w AND MASK32 = uint w mod 4294967296" by (simp add: MASK32_def and_FFFFFFFF)
  also have "\<dots> = uint w" using uint_bounded [of w] by simp
  finally show ?thesis .
qed

lemma nat_fields:
  fixes n :: nat
  shows "n mod 2 ^ 31 = ((n div 2 ^ 23) mod 2 ^ 8) * 2 ^ 23 + n mod 2 ^ 23"
proof -
  have "n mod 2 ^ 31 = n mod (2 ^ 23 * 2 ^ 8)" by simp
  also have "\<dots> = 2 ^ 23 * ((n div 2 ^ 23) mod 2 ^ 8) + n mod 2 ^ 23"
    by (rule mod_mult2_eq)
  finally show ?thesis by simp
qed

lemma is_nan_uint: "is_nan (uint w) \<longleftrightarrow> ieee_is_nan w"
  unfolding is_nan_def Let_def fclass_fields ieee_is_nan_def by simp

lemma is_inf_uint: "is_inf (uint w) \<longleftrightarrow> ieee_is_inf w"
  unfolding is_inf_def Let_def fclass_fields ieee_is_inf_def by simp

lemma is_zero_uint: "is_zero (uint w) \<longleftrightarrow> ieee_is_zero w"
proof -
  have "uint w AND 0x7FFFFFFF = int (unat w mod 2 ^ 31)"
    by (simp add: and_7FFFFFFF zmod_int)
  then have "is_zero (uint w) \<longleftrightarrow> unat w mod 2 ^ 31 = 0"
    by (simp add: is_zero_def)
  also have "\<dots> \<longleftrightarrow> ieee_is_zero w"
    unfolding nat_fields [of "unat w"] ieee_is_zero_def ieee_exponent_def ieee_fraction_def
    by simp
  finally show ?thesis .
qed

lemma bits_to_float_uint:
  "bits_to_float (uint w) =
     (if ieee_exponent w = 255 then (if ieee_fraction w = 0 then Infinity (ieee_sign w = 1) else NaN)
      else if ieee_exponent w = 0 then Finite (ieee_sign w = 1) (of_nat (ieee_fraction w) * 2 powi (-149))
      else Finite (ieee_sign w = 1)
             (of_nat (2 ^ 23 + ieee_fraction w) * 2 powi (int (ieee_exponent w) - 150)))"
proof -
  have u: "uint w = int (unat w)" by simp
  have "uint w div 2 ^ 31 = int (unat w div 2 ^ 31)"
    unfolding u by (simp add: zdiv_int)
  then have 1: "uint w div 2 ^ 31 = 1 \<longleftrightarrow> ieee_sign w = 1"
    unfolding ieee_sign_def by (simp only: of_nat_eq_1_iff)
  have 2: "(uint w div 2 ^ 23) mod 2 ^ 8 = int (ieee_exponent w)"
    unfolding u ieee_exponent_def by (simp add: zdiv_int zmod_int)
  have 3: "uint w mod 2 ^ 23 = int (ieee_fraction w)"
    unfolding u ieee_fraction_def by (simp add: zmod_int)
  show ?thesis
    unfolding bits_to_float_def uint_and_MASK32 Let_def 1 2 3
    by simp
qed

lemma py_is_zero_bits_to_float: "py_is_zero (bits_to_float (uint w)) \<longleftrightarrow> ieee_is_zero w"
  by (simp add: bits_to_float_uint py_is_zero_def ieee_is_zero_def)


lemma ieee_sign_cases: "ieee_sign w = 0 \<or> ieee_sign w = 1"
proof -
  have "unat w < 2 ^ 32" using unsigned_less [of w, where ?'a = nat] by simp
  then have "unat w div 2 ^ 31 < 2" by (simp add: less_mult_imp_div_less)
  then show ?thesis unfolding ieee_sign_def by linarith
qed

lemma bit31_uint: "bit (uint w) 31 \<longleftrightarrow> ieee_sign w = 1"
  using fclass_fields(3) [of w] by (simp add: is_negative_def FP_SIGN_MASK_def sign_field)

lemma signed_infinity:
  "FP_POS_INF OR ((uint a XOR uint b) AND FP_SIGN_MASK) =
     (if ieee_sign a \<noteq> ieee_sign b then 0xFF800000 else 0x7F800000)"
proof -
  have "(uint a XOR uint b) AND FP_SIGN_MASK =
          (if bit (uint a XOR uint b) 31 then 2 ^ 31 else 0)"
    using int_and_exp [of "uint a XOR uint b" 31] by (simp add: FP_SIGN_MASK_def)
  also have "bit (uint a XOR uint b) 31 \<longleftrightarrow> (ieee_sign a = 1) \<noteq> (ieee_sign b = 1)"
    by (simp add: bit_xor_iff bit31_uint)
  also have "\<dots> \<longleftrightarrow> ieee_sign a \<noteq> ieee_sign b"
    using ieee_sign_cases [of a] ieee_sign_cases [of b] by auto
  finally show ?thesis by (simp add: FP_POS_INF_def)
qed

text \<open>
  Claim C5. For every pair of 32-bit patterns, \<open>fdiv_s\<close> decides the special cases
  before it divides: a NaN operand gives the canonical quiet NaN \<open>0x7FC00000\<close>; two
  infinities, or two zeros, give the canonical quiet NaN; a zero divisor with a finite
  non-zero dividend gives the infinity whose sign bit is the exclusive or of the sign
  bits of the operands.
\<close>

theorem fdiv_s_special_cases:
  fixes a b :: "32 word"
  shows "(ieee_is_nan a \<or> ieee_is_nan b \<longrightarrow> fdiv_s (uint a) (uint b) = Inr 0x7FC00000)
       \<and> (ieee_is_inf a \<and> ieee_is_inf b \<longrightarrow> fdiv_s (uint a) (uint b) = Inr 0x7FC00000)
       \<and> (ieee_is_zero a \<and> ieee_is_zero b \<longrightarrow> fdiv_s (uint a) (uint b) = Inr 0x7FC00000)
       \<and> (ieee_is_zero b \<and> ieee_is_finite a \<and> \<not> ieee_is_zero a \<longrightarrow>
            fdiv_s (uint a) (uint b) =
              Inr (if ieee_sign a \<noteq> ieee_sign b then 0xFF800000 else 0x7F800000))"
proof -
  have nan: "fdiv_s (uint a) (uint b) = Inr 0x7FC00000" if "ieee_is_nan a \<or> ieee_is_nan b"
    using that by (simp add: fdiv_s_def is_nan_uint FP_CANONICAL_NAN_def)
  have nn: "\<not> ieee_is_nan a \<and> \<not> ieee_is_nan b" if "ieee_is_inf a \<and> ieee_is_inf b"
    using that by (simp add: ieee_is_inf_def ieee_is_nan_def)
  have inf: "fdiv_s (uint a) (uint b) = Inr 0x7FC00000" if "ieee_is_inf a \<and> ieee_is_inf b"
    using that nn [OF that]
    by (simp add: fdiv_s_def is_nan_uint is_inf_uint FP_CANONICAL_NAN_def)
  have zero: "fdiv_s (uint a) (uint b) = Inr 0x7FC00000" if "ieee_is_zero a \<and> ieee_is_zero b"
  proof -
    from that have "\<not> ieee_is_nan a" "\<not> ieee_is_nan b" "\<not> ieee_is_inf a"
      by (simp_all add: ieee_is_zero_def ieee_is_nan_def ieee_is_inf_def)
    with that show ?thesis
      by (simp add: fdiv_s_def is_nan_uint is_inf_uint is_zero_uint FP_CANONICAL_NAN_def)
  qed
  have div0: "fdiv_s (uint a) (uint b) =
      Inr (if ieee_sign a \<noteq> ieee_sign b then 0xFF800000 else 0x7F800000)"
    if "ieee_is_zero b \<and> ieee_is_finite a \<and> \<not> ieee_is_zero a"
  proof -
    from that have "\<not> ieee_is_nan a" "\<not> ieee_is_nan b" "\<not> ieee_is_inf a" "\<not> ieee_is_zero a"
      "ieee_is_zero b"
      by (simp_all add: ieee_is_zero_def ieee_is_nan_def ieee_is_inf_def ieee_is_finite_def)
    then show ?thesis
      by (simp add: fdiv_s_def is_nan_uint is_inf_uint is_zero_uint Let_def
          py_is_zero_bits_to_float signed_infinity)
  qed
  from nan inf zero div0 show ?thesis by blast
qed

theorem fdiv_s_special_cases_witness:
  "ieee_is_nan 0x7F800001 \<and> fdiv_s 0x7F800001 0x3F800000 = Inr 0x7FC00000
   \<and> ieee_is_inf 0x7F800000 \<and> ieee_is_inf 0xFF800000 \<and> fdiv_s 0x7F800000 0xFF800000 = Inr 0x7FC00000
   \<and> ieee_is_zero 0 \<and> ieee_is_zero 0x80000000 \<and> fdiv_s 0 0x80000000 = Inr 0x7FC00000
   \<and> ieee_is_finite 0x3F800000 \<and> \<not> ieee_is_zero 0x3F800000
   \<and> fdiv_s 0x3F800000 0x80000000 = Inr 0xFF800000"
proof -
  have h: "ieee_is_nan 0x7F800001" "ieee_is_inf 0x7F800000" "ieee_is_inf 0xFF800000"
    "ieee_is_zero 0" "ieee_is_zero 0x80000000" "ieee_is_finite 0x3F800000"
    "\<not> ieee_is_zero 0x3F800000"
    "ieee_sign 0x3F800000 \<noteq> ieee_sign 0x80000000"
    by (simp_all add: ieee_is_nan_def ieee_is_inf_def ieee_is_zero_def ieee_is_finite_def
        ieee_exponent_def ieee_fraction_def ieee_sign_def)
  from h fdiv_s_special_cases [of "0x7F800001" "0x3F800000"]
    fdiv_s_special_cases [of "0x7F800000" "0xFF800000"]
    fdiv_s_special_cases [of "0" "0x80000000"]
    fdiv_s_special_cases [of "0x3F800000" "0x80000000"]
  show ?thesis by simp
qed

subsection \<open>Conversion to a signed integer\<close>

lemma rne_of_int [simp]: "rne (of_int k) = k"
  by (simp add: rne_def)

lemma rne_cases:
  obtains (down) "x - of_int \<lfloor>x\<rfloor> < 1 / 2" "rne x = \<lfloor>x\<rfloor>"
  | (up) "1 / 2 < x - of_int \<lfloor>x\<rfloor>" "rne x = \<lfloor>x\<rfloor> + 1"
  | (tie_even) "x - of_int \<lfloor>x\<rfloor> = 1 / 2" "even \<lfloor>x\<rfloor>" "rne x = \<lfloor>x\<rfloor>"
  | (tie_odd) "x - of_int \<lfloor>x\<rfloor> = 1 / 2" "odd \<lfloor>x\<rfloor>" "rne x = \<lfloor>x\<rfloor> + 1"
proof (cases "x - of_int \<lfloor>x\<rfloor> < 1 / 2")
  case True
  then show ?thesis using down by (simp add: rne_def)
next
  case nd: False
  show ?thesis
  proof (cases "1 / 2 < x - of_int \<lfloor>x\<rfloor>")
    case True
    with nd show ?thesis using up by (simp add: rne_def)
  next
    case False
    with nd have t: "x - of_int \<lfloor>x\<rfloor> = 1 / 2" by linarith
    show ?thesis
    proof (cases "even \<lfloor>x\<rfloor>")
      case True
      with t show ?thesis using tie_even by (simp add: rne_def)
    next
      case False
      with t show ?thesis using tie_odd by (simp add: rne_def)
    qed
  qed
qed

lemma rne_nearest: "\<bar>of_int (rne x) - x\<bar> \<le> 1 / 2"
proof -
  have b: "of_int \<lfloor>x\<rfloor> \<le> x" "x < of_int \<lfloor>x\<rfloor> + 1" by linarith+
  show ?thesis
  proof (cases x rule: rne_cases)
    case down
    with b show ?thesis by (simp only: abs_le_iff) linarith
  next
    case up
    with b show ?thesis by (simp only: abs_le_iff of_int_add of_int_1) linarith
  next
    case tie_even
    with b show ?thesis by (simp only: abs_le_iff) linarith
  next
    case tie_odd
    with b show ?thesis by (simp only: abs_le_iff of_int_add of_int_1) linarith
  qed
qed

lemma rne_tie_even: "\<bar>of_int (rne x) - x\<bar> = 1 / 2 \<Longrightarrow> even (rne x)"
proof -
  assume a: "\<bar>of_int (rne x) - x\<bar> = 1 / 2"
  have b: "of_int \<lfloor>x\<rfloor> \<le> x" "x < of_int \<lfloor>x\<rfloor> + 1" by linarith+
  show ?thesis
  proof (cases x rule: rne_cases)
    case down
    with a b have False by (simp only: abs_if split: if_splits; linarith)
    then show ?thesis ..
  next
    case up
    with a b have False by (simp only: abs_if of_int_add of_int_1 split: if_splits; linarith)
    then show ?thesis ..
  next
    case tie_even
    then show ?thesis by simp
  next
    case tie_odd
    then show ?thesis by simp
  qed
qed

lemma rne_le: "x \<le> of_int n \<Longrightarrow> rne x \<le> n"
proof -
  assume a: "x \<le> of_int n"
  show ?thesis
  proof (cases "x = of_int n")
    case True then show ?thesis by simp
  next
    case False
    with a have "x < of_int n" by simp
    then have "\<lfloor>x\<rfloor> < n" by (simp add: floor_less_iff)
    moreover have "rne x \<le> \<lfloor>x\<rfloor> + 1" by (simp add: rne_def Let_def)
    ultimately show ?thesis by linarith
  qed
qed

lemma rne_ge: "of_int n \<le> x \<Longrightarrow> n \<le> rne x"
proof -
  assume "of_int n \<le> x"
  then have "n \<le> \<lfloor>x\<rfloor>" by (simp add: le_floor_iff)
  moreover have "\<lfloor>x\<rfloor> \<le> rne x" by (simp add: rne_def Let_def)
  ultimately show ?thesis by linarith
qed


lemma ieee_fraction_less: "ieee_fraction w < 2 ^ 23"
  by (simp add: ieee_fraction_def)

lemma ieee_exponent_less: "ieee_exponent w < 2 ^ 8"
  by (simp add: ieee_exponent_def)

lemma bits_to_float_finite:
  assumes "ieee_is_finite w"
  shows "bits_to_float (uint w) = Finite (ieee_sign w = 1) \<bar>ieee_value w\<bar>"
    and "(if ieee_sign w = 1 then - \<bar>ieee_value w\<bar> else \<bar>ieee_value w\<bar>) = ieee_value w"
proof -
  define m :: rat where "m = (if ieee_exponent w = 0
               then of_nat (ieee_fraction w) * 2 powi (-149)
               else of_nat (2 ^ 23 + ieee_fraction w) * 2 powi (int (ieee_exponent w) - 150))"
  have m: "0 \<le> m" unfolding m_def by simp
  have v: "ieee_value w = (if ieee_sign w = 1 then - m else m)"
    by (simp add: ieee_value_def m_def Let_def)
  with m have a: "\<bar>ieee_value w\<bar> = m" by simp
  from assms show "bits_to_float (uint w) = Finite (ieee_sign w = 1) \<bar>ieee_value w\<bar>"
    unfolding a by (simp add: bits_to_float_uint ieee_is_finite_def m_def)
  from v m show "(if ieee_sign w = 1 then - \<bar>ieee_value w\<bar> else \<bar>ieee_value w\<bar>) = ieee_value w"
    unfolding a by simp
qed

lemma ieee_value_int_or_small:
  "(\<exists>k. ieee_value w = of_int k) \<or> \<bar>ieee_value w\<bar> \<le> 2 ^ 23"
proof (cases "150 \<le> ieee_exponent w")
  case True
  define K :: int where "K = (2 ^ 23 + int (ieee_fraction w)) * 2 ^ (ieee_exponent w - 150)"
  from True have "(2::rat) powi (int (ieee_exponent w) - 150) = 2 ^ (ieee_exponent w - 150)"
    by (simp add: power_int_def nat_diff_distrib')
  with True have "ieee_value w = of_int (if ieee_sign w = 1 then - K else K)"
    by (simp add: ieee_value_def K_def)
  then show ?thesis by blast
next
  case False
  define m :: rat where "m = (if ieee_exponent w = 0
               then of_nat (ieee_fraction w) * 2 powi (-149)
               else of_nat (2 ^ 23 + ieee_fraction w) * 2 powi (int (ieee_exponent w) - 150))"
  have m0: "0 \<le> m" unfolding m_def by simp
  have f: "(of_nat (ieee_fraction w) :: rat) \<le> 2 ^ 23"
    using ieee_fraction_less [of w] by (metis less_imp_le of_nat_le_iff of_nat_numeral of_nat_power)
  have "(2::rat) powi (-149) \<le> 2 powi 0"
    by (intro power_int_increasing) simp_all
  then have p1: "(2::rat) powi (-149) \<le> 1" by simp
  have "m \<le> 2 ^ 23"
  proof (cases "ieee_exponent w = 0")
    case True
    have "of_nat (ieee_fraction w) * (2::rat) powi (-149) \<le> 2 ^ 23 * 1"
      by (intro mult_mono f p1) simp_all
    with True show ?thesis by (simp add: m_def)
  next
    case nz: False
    from False have "int (ieee_exponent w) - 150 \<le> -1" by simp
    then have "(2::rat) powi (int (ieee_exponent w) - 150) \<le> 2 powi (-1)"
      by (intro power_int_increasing) simp_all
    then have p: "(2::rat) powi (int (ieee_exponent w) - 150) \<le> 1 / 2"
      by (simp add: power_int_def)
    have "(of_nat (2 ^ 23 + ieee_fraction w) :: rat) \<le> 2 ^ 23 + 2 ^ 23"
      using f by simp
    then have "of_nat (2 ^ 23 + ieee_fraction w) * (2::rat) powi (int (ieee_exponent w) - 150)
        \<le> (2 ^ 23 + 2 ^ 23) * (1 / 2)"
      by (intro mult_mono p) simp_all
    with nz show ?thesis by (simp add: m_def)
  qed
  moreover have "\<bar>ieee_value w\<bar> = m"
    using m0 by (simp add: ieee_value_def m_def Let_def)
  ultimately show ?thesis by simp
qed

lemma rne_in_range:
  assumes lo: "- 2147483648 \<le> ieee_value w" and hi: "ieee_value w < 2147483648"
  shows "- 2147483648 \<le> rne (ieee_value w) \<and> rne (ieee_value w) \<le> 2147483647"
proof -
  from ieee_value_int_or_small [of w] show ?thesis
  proof
    assume "\<exists>k. ieee_value w = of_int k"
    then obtain k where k: "ieee_value w = of_int k" ..
    with lo hi have "- 2147483648 \<le> (of_int k :: rat)" "(of_int k :: rat) < 2147483648" by simp_all
    then have "- 2147483648 \<le> k" "k < 2147483648"
      by (metis of_int_le_iff of_int_minus of_int_numeral, metis of_int_less_iff of_int_numeral)
    with k show ?thesis by simp
  next
    assume "\<bar>ieee_value w\<bar> \<le> 2 ^ 23"
    then have u: "ieee_value w \<le> of_int 8388608" and l: "of_int (- 8388608) \<le> ieee_value w"
      by (simp_all add: abs_le_iff)
    from u have "rne (ieee_value w) \<le> 8388608" by (rule rne_le)
    moreover from l have "- 8388608 \<le> rne (ieee_value w)" by (rule rne_ge)
    ultimately show ?thesis by simp
  qed
qed


lemma fcvt_w_s_finite:
  assumes fin: "ieee_is_finite w"
  shows "fcvt_w_s (uint w) =
     Inr (if 2147483648 \<le> ieee_value w then 0x7FFFFFFF
          else if ieee_value w < - 2147483648 then 0x80000000
          else rne (ieee_value w) AND MASK32)"
proof -
  from fin have n: "\<not> is_nan (uint w)" "\<not> is_inf (uint w)"
    by (simp_all add: is_nan_uint is_inf_uint ieee_is_finite_def ieee_is_nan_def ieee_is_inf_def)
  note b = bits_to_float_finite [OF fin]
  show ?thesis
  proof (cases "2147483648 \<le> ieee_value w \<or> ieee_value w < - 2147483648")
    case True
    then show ?thesis
      unfolding fcvt_w_s_def Let_def b(1)
      using n b(2) by (auto simp add: py_ge_def py_lt_def)
  next
    case False
    then have r: "- 2147483648 \<le> ieee_value w" "ieee_value w < 2147483648" by simp_all
    from rne_in_range [OF r] have
      "\<not> rne (ieee_value w) > 2147483647" "\<not> rne (ieee_value w) < - 2147483648" by simp_all
    then show ?thesis
      unfolding fcvt_w_s_def Let_def b(1)
      using n b(2) r
      by (simp add: py_ge_def py_lt_def round_to_nearest_even_def py_round_def)
  qed
qed

text \<open>
  Claim C10. \<open>fcvt_w_s\<close> is total and saturating: it always returns a 32-bit value;
  a NaN gives \<open>0x7FFFFFFF\<close>; plus infinity and finite values from \<open>2^31\<close> on give
  \<open>0x7FFFFFFF\<close>; minus infinity and finite values below \<open>-2^31\<close> give
  \<open>0x80000000\<close>; every other finite input is rounded to the nearest integer, ties to
  even, and the integer is returned masked to 32 bits.
\<close>

theorem fcvt_w_s_saturating:
  fixes w :: "32 word"
  shows "(\<exists>v. fcvt_w_s (uint w) = Inr v \<and> 0 \<le> v \<and> v < 2 ^ 32)
    \<and> (ieee_is_nan w \<longrightarrow> fcvt_w_s (uint w) = Inr 0x7FFFFFFF)
    \<and> (ieee_is_inf w \<and> ieee_sign w = 0 \<longrightarrow> fcvt_w_s (uint w) = Inr 0x7FFFFFFF)
    \<and> (ieee_is_finite w \<and> 2 ^ 31 \<le> ieee_value w \<longrightarrow> fcvt_w_s (uint w) = Inr 0x7FFFFFFF)
    \<and> (ieee_is_inf w \<and> ieee_sign w = 1 \<longrightarrow> fcvt_w_s (uint w) = Inr 0x80000000)
    \<and> (ieee_is_finite w \<and> ieee_value w < - (2 ^ 31) \<longrightarrow> fcvt_w_s (uint w) = Inr 0x80000000)
    \<and> (ieee_is_finite w \<and> - (2 ^ 31) \<le> ieee_value w \<and> ieee_value w < 2 ^ 31 \<longrightarrow>
         (\<exists>r. fcvt_w_s (uint w) = Inr (r AND 0xFFFFFFFF)
              \<and> \<bar>of_int r - ieee_value w\<bar> \<le> 1 / 2
              \<and> (\<bar>of_int r - ieee_value w\<bar> = 1 / 2 \<longrightarrow> even r)
              \<and> - (2 ^ 31) \<le> r \<and> r < 2 ^ 31))"
proof -
  have nan: "fcvt_w_s (uint w) = Inr 0x7FFFFFFF" if "ieee_is_nan w"
    using that by (simp add: fcvt_w_s_def is_nan_uint)
  have inf: "fcvt_w_s (uint w) = Inr (if ieee_sign w = 1 then 0x80000000 else 0x7FFFFFFF)"
    if "ieee_is_inf w"
  proof -
    from that have "\<not> ieee_is_nan w" by (simp add: ieee_is_nan_def ieee_is_inf_def)
    with that show ?thesis
      by (simp add: fcvt_w_s_def is_nan_uint is_inf_uint fclass_fields)
  qed
  have pinf: "fcvt_w_s (uint w) = Inr 0x7FFFFFFF" if "ieee_is_inf w \<and> ieee_sign w = 0"
    using that inf by simp
  have ninf: "fcvt_w_s (uint w) = Inr 0x80000000" if "ieee_is_inf w \<and> ieee_sign w = 1"
    using that inf by simp
  have big: "fcvt_w_s (uint w) = Inr 0x7FFFFFFF" if "ieee_is_finite w \<and> 2 ^ 31 \<le> ieee_value w"
    using that by (simp add: fcvt_w_s_finite)
  have small: "fcvt_w_s (uint w) = Inr 0x80000000"
    if "ieee_is_finite w \<and> ieee_value w < - (2 ^ 31)"
    using that by (simp add: fcvt_w_s_finite)
  have mid: "\<exists>r. fcvt_w_s (uint w) = Inr (r AND 0xFFFFFFFF)
              \<and> \<bar>of_int r - ieee_value w\<bar> \<le> 1 / 2
              \<and> (\<bar>of_int r - ieee_value w\<bar> = 1 / 2 \<longrightarrow> even r)
              \<and> - (2 ^ 31) \<le> r \<and> r < 2 ^ 31"
    if "ieee_is_finite w \<and> - (2 ^ 31) \<le> ieee_value w \<and> ieee_value w < 2 ^ 31"
  proof -
    from that have r: "- 2147483648 \<le> ieee_value w" "ieee_value w < 2147483648" by simp_all
    from that r have "fcvt_w_s (uint w) = Inr (rne (ieee_value w) AND 0xFFFFFFFF)"
      by (simp add: fcvt_w_s_finite MASK32_def)
    moreover note rne_nearest [of "ieee_value w"]
    moreover have "\<bar>of_int (rne (ieee_value w)) - ieee_value w\<bar> = 1 / 2 \<longrightarrow> even (rne (ieee_value w))"
      using rne_tie_even by blast
    moreover from rne_in_range [OF r]
    have "- (2 ^ 31) \<le> rne (ieee_value w) \<and> rne (ieee_value w) < 2 ^ 31" by simp
    ultimately show ?thesis by blast
  qed
  have total: "\<exists>v. fcvt_w_s (uint w) = Inr v \<and> 0 \<le> v \<and> v < 2 ^ 32"
  proof (cases "ieee_is_finite w")
    case True
    have "0 \<le> rne (ieee_value w) AND MASK32 \<and> rne (ieee_value w) AND MASK32 < 2 ^ 32"
      by (simp add: MASK32_def and_FFFFFFFF)
    with True show ?thesis by (simp add: fcvt_w_s_finite)
  next
    case False
    then have "ieee_is_nan w \<or> ieee_is_inf w"
      by (auto simp add: ieee_is_finite_def ieee_is_nan_def ieee_is_inf_def)
    then show ?thesis using nan inf by auto
  qed
  from total nan pinf big ninf small mid show ?thesis by blast
qed

theorem fcvt_w_s_saturating_witness:
  "ieee_is_nan 0x7FC00000 \<and> fcvt_w_s 0x7FC00000 = Inr 0x7FFFFFFF
   \<and> ieee_is_inf 0x7F800000 \<and> ieee_sign 0x7F800000 = 0 \<and> fcvt_w_s 0x7F800000 = Inr 0x7FFFFFFF
   \<and> ieee_is_finite 0x4F000000 \<and> 2 ^ 31 \<le> ieee_value 0x4F000000
   \<and> fcvt_w_s 0x4F000000 = Inr 0x7FFFFFFF
   \<and> ieee_is_inf 0xFF800000 \<and> ieee_sign 0xFF800000 = 1 \<and> fcvt_w_s 0xFF800000 = Inr 0x80000000
   \<and> ieee_is_finite 0xCF000001 \<and> ieee_value 0xCF000001 < - (2 ^ 31)
   \<and> fcvt_w_s 0xCF000001 = Inr 0x80000000
   \<and> ieee_is_finite 0xC0200000 \<and> ieee_value 0xC0200000 = - 5 / 2
   \<and> fcvt_w_s 0xC0200000 = Inr 0xFFFFFFFE"
proof -
  have f: "ieee_exponent 0x7FC00000 = 255" "ieee_fraction 0x7FC00000 = 4194304"
    "ieee_exponent 0x7F800000 = 255" "ieee_fraction 0x7F800000 = 0" "ieee_sign 0x7F800000 = 0"
    "ieee_exponent 0x4F000000 = 158" "ieee_fraction 0x4F000000 = 0" "ieee_sign 0x4F000000 = 0"
    "ieee_exponent 0xFF800000 = 255" "ieee_fraction 0xFF800000 = 0" "ieee_sign 0xFF800000 = 1"
    "ieee_exponent 0xCF000001 = 158" "ieee_fraction 0xCF000001 = 1" "ieee_sign 0xCF000001 = 1"
    "ieee_exponent 0xC0200000 = 128" "ieee_fraction 0xC0200000 = 2097152" "ieee_sign 0xC0200000 = 1"
    by (simp_all add: ieee_exponent_def ieee_fraction_def ieee_sign_def)
  have h: "ieee_is_nan 0x7FC00000" "ieee_is_inf 0x7F800000" "ieee_is_finite 0x4F000000"
    "ieee_is_inf 0xFF800000" "ieee_is_finite 0xCF000001" "ieee_is_finite 0xC0200000"
    by (simp_all add: ieee_is_nan_def ieee_is_inf_def ieee_is_finite_def f)
  have v: "ieee_value 0x4F000000 = 2 ^ 31" "ieee_value 0xCF000001 = - 2147483904"
    "ieee_value 0xC0200000 = - 5 / 2"
    by (simp_all add: ieee_value_def f power_int_def power_one_over)
  have r: "rne (- (5 / 2)) = - 2" by code_simp
  have t: "fcvt_w_s 0xC0200000 = Inr 0xFFFFFFFE"
    using h(6) fcvt_w_s_finite [of "0xC0200000"] by (simp add: v r MASK32_def)
  from h f v t fcvt_w_s_saturating [of "0x7FC00000"] fcvt_w_s_saturating [of "0x7F800000"]
    fcvt_w_s_saturating [of "0x4F000000"] fcvt_w_s_saturating [of "0xFF800000"]
    fcvt_w_s_saturating [of "0xCF000001"] fcvt_w_s_saturating [of "0xC0200000"]
  show ?thesis by simp
qed

subsection \<open>Encoders and operand ranges\<close>

lemma compress_reg_eq:
  "compress_reg reg =
     (if 8 \<le> reg \<and> reg \<le> 15 then Inr (reg - 8) else Inl (AssertionError (CompressedRegister reg)))"
  by (simp add: compress_reg_def check_def)

lemma and_1F_mod: "(sh::int) AND 0x1F = sh mod 32"
  using int_and_mask [of sh 5] by (simp add: mask_eq_exp_minus_1)

lemma shift_encoder_masks:
  "make_i_shift_encoder enc f3 f7 rd rs1 sh = make_i_shift_encoder enc f3 f7 rd rs1 (sh mod 32)"
  by (simp add: make_i_shift_encoder_def and_1F_mod)

lemmas enc_defs = enc_c_addi4spn_def enc_c_lw_def enc_c_sw_def enc_c_addi_def enc_c_jal_def
  enc_c_li_def enc_c_lui_def enc_c_addi16sp_def enc_c_srli_def enc_c_srai_def enc_c_andi_def
  c_alu_reg_def enc_c_sub_def enc_c_xor_def enc_c_or_def enc_c_and_def enc_c_j_def c_branch_def
  enc_c_beqz_def enc_c_bnez_def enc_c_slli_def enc_c_lwsp_def enc_c_jr_def enc_c_mv_def
  enc_c_jalr_def enc_c_add_def enc_c_swsp_def

lemma compressed_register_rejected:
  assumes "\<not> (8 \<le> r \<and> r \<le> 15)"
  shows "enc_c_addi4spn r x = Inl (AssertionError OperandRange)"
    and "enc_c_lw r y u = Inl (AssertionError OperandRange)"
    and "enc_c_lw y r u = Inl (AssertionError OperandRange)"
    and "enc_c_sw r y u = Inl (AssertionError OperandRange)"
    and "enc_c_sw y r u = Inl (AssertionError OperandRange)"
    and "enc_c_srli r x = Inl (AssertionError OperandRange)"
    and "enc_c_srai r x = Inl (AssertionError OperandRange)"
    and "enc_c_andi r x = Inl (AssertionError OperandRange)"
    and "enc_c_sub r y = Inl (AssertionError OperandRange)"
    and "enc_c_sub y r = Inl (AssertionError OperandRange)"
    and "enc_c_xor r y = Inl (AssertionError OperandRange)"
    and "enc_c_xor y r = Inl (AssertionError OperandRange)"
    and "enc_c_or r y = Inl (AssertionError OperandRange)"
    and "enc_c_or y r = Inl (AssertionError OperandRange)"
    and "enc_c_and r y = Inl (AssertionError OperandRange)"
    and "enc_c_and y r = Inl (AssertionError OperandRange)"
    and "enc_c_beqz r x = Inl (AssertionError OperandRange)"
    and "enc_c_bnez r x = Inl (AssertionError OperandRange)"
  using assms by (auto simp add: enc_defs check_def)

lemma compressed_success_in_range:
  shows "enc_c_addi4spn r x = Inr w \<Longrightarrow> 8 \<le> r \<and> r \<le> 15 \<and> 4 \<le> x \<and> x \<le> 1020 \<and> x mod 4 = 0"
    and "enc_c_lw r r1 u = Inr w \<Longrightarrow> 8 \<le> r \<and> r \<le> 15 \<and> 8 \<le> r1 \<and> r1 \<le> 15 \<and> 0 \<le> u \<and> u \<le> 124 \<and> u mod 4 = 0"
    and "enc_c_sw r1 r2 u = Inr w \<Longrightarrow> 8 \<le> r1 \<and> r1 \<le> 15 \<and> 8 \<le> r2 \<and> r2 \<le> 15 \<and> 0 \<le> u \<and> u \<le> 124 \<and> u mod 4 = 0"
    and "enc_c_addi rd x = Inr w \<Longrightarrow> 0 \<le> rd \<and> rd \<le> 31 \<and> - 32 \<le> x \<and> x \<le> 31"
    and "enc_c_jal x = Inr w \<Longrightarrow> - 2048 \<le> x \<and> x \<le> 2046 \<and> x mod 2 = 0"
    and "enc_c_li rd x = Inr w \<Longrightarrow> 1 \<le> rd \<and> rd \<le> 31 \<and> - 32 \<le> x \<and> x \<le> 31"
    and "enc_c_lui rd x = Inr w \<Longrightarrow> 1 \<le> rd \<and> rd \<le> 31 \<and> rd \<noteq> 2 \<and> - 32 \<le> x \<and> x \<le> 31 \<and> x \<noteq> 0"
    and "enc_c_addi16sp x = Inr w \<Longrightarrow> - 512 \<le> x \<and> x \<le> 496 \<and> x \<noteq> 0 \<and> x mod 16 = 0"
    and "enc_c_srli r x = Inr w \<Longrightarrow> 8 \<le> r \<and> r \<le> 15 \<and> 1 \<le> x \<and> x \<le> 31"
    and "enc_c_srai r x = Inr w \<Longrightarrow> 8 \<le> r \<and> r \<le> 15 \<and> 1 \<le> x \<and> x \<le> 31"
    and "enc_c_andi r x = Inr w \<Longrightarrow> 8 \<le> r \<and> r \<le> 15 \<and> - 32 \<le> x \<and> x \<le> 31"
    and "enc_c_sub r r2 = Inr w \<Longrightarrow> 8 \<le> r \<and> r \<le> 15 \<and> 8 \<le> r2 \<and> r2 \<le> 15"
    and "enc_c_xor r r2 = Inr w \<Longrightarrow> 8 \<le> r \<and> r \<le> 15 \<and> 8 \<le> r2 \<and> r2 \<le> 15"
    and "enc_c_or r r2 = Inr w \<Longrightarrow> 8 \<le> r \<and> r \<le> 15 \<and> 8 \<le> r2 \<and> r2 \<le> 15"
    and "enc_c_and r r2 = Inr w \<Longrightarrow> 8 \<le> r \<and> r \<le> 15 \<and> 8 \<le> r2 \<and> r2 \<le> 15"
    and "enc_c_j x = Inr w \<Longrightarrow> - 2048 \<le> x \<and> x \<le> 2046 \<and> x mod 2 = 0"
    and "enc_c_beqz r x = Inr w \<Longrightarrow> 8 \<le> r \<and> r \<le> 15 \<and> - 256 \<le> x \<and> x \<le> 254 \<and> x mod 2 = 0"
    and "enc_c_bnez r x = Inr w \<Longrightarrow> 8 \<le> r \<and> r \<le> 15 \<and> - 256 \<le> x \<and> x \<le> 254 \<and> x mod 2 = 0"
    and "enc_c_slli rd x = Inr w \<Longrightarrow> 1 \<le> rd \<and> rd \<le> 31 \<and> 1 \<le> x \<and> x \<le> 31"
    and "enc_c_lwsp rd u = Inr w \<Longrightarrow> 1 \<le> rd \<and> rd \<le> 31 \<and> 0 \<le> u \<and> u \<le> 252 \<and> u mod 4 = 0"
    and "enc_c_jr rs1 = Inr w \<Longrightarrow> 1 \<le> rs1 \<and> rs1 \<le> 31"
    and "enc_c_mv rd rs2 = Inr w \<Longrightarrow> 1 \<le> rd \<and> rd \<le> 31 \<and> 1 \<le> rs2 \<and> rs2 \<le> 31"
    and "enc_c_jalr rs1 = Inr w \<Longrightarrow> 1 \<le> rs1 \<and> rs1 \<le> 31"
    and "enc_c_add rd rs2 = Inr w \<Longrightarrow> 1 \<le> rd \<and> rd \<le> 31 \<and> 1 \<le> rs2 \<and> rs2 \<le> 31"
    and "enc_c_swsp rs2 u = Inr w \<Longrightarrow> 0 \<le> rs2 \<and> rs2 \<le> 31 \<and> 0 \<le> u \<and> u \<le> 252 \<and> u mod 4 = 0"
  by (simp_all add: enc_defs check_def split: if_splits)


text \<open>
  The shift encoders of the operation tables do not reject a shift amount outside 0 to
  31: \<open>slli x1, x2, 32\<close> encodes, to the word of \<open>slli x1, x2, 0\<close>.
\<close>

theorem shift_amount_masked_counterexample:
  "I_ALU_slli enc_i_spec 1 2 32 = Inr 0x00011093
   \<and> I_ALU_slli enc_i_spec 1 2 32 = I_ALU_slli enc_i_spec 1 2 0"
  by (simp add: I_ALU_slli_def make_i_shift_encoder_def enc_i_spec_def)

text \<open>
  Claim C3, as the code has it. \<open>compress_reg\<close> and every compressed encoder with a
  3-bit register field raise an \<open>AssertionError\<close> for a register outside x8 to x15,
  the compressed shifts raise for a shift amount outside 1 to 31, and a compressed
  encoder that returns a word was given operands inside the ranges it asserts. The
  I-type shift encoders made by \<open>make_i_shift_encoder\<close> mask the shift amount to its
  low five bits instead: \<open>sh\<close> and \<open>sh mod 32\<close> give the same result, whatever the
  32-bit encoder \<open>enc_i\<close> does.
\<close>

theorem encoders_reject_or_mask:
  "compress_reg reg =
     (if 8 \<le> reg \<and> reg \<le> 15 then Inr (reg - 8) else Inl (AssertionError (CompressedRegister reg)))
   \<and> (\<not> (8 \<le> r \<and> r \<le> 15) \<longrightarrow>
         enc_c_addi4spn r x = Inl (AssertionError OperandRange)
       \<and> enc_c_lw r y u = Inl (AssertionError OperandRange)
       \<and> enc_c_lw y r u = Inl (AssertionError OperandRange)
       \<and> enc_c_sw r y u = Inl (AssertionError OperandRange)
       \<and> enc_c_sw y r u = Inl (AssertionError OperandRange)
       \<and> enc_c_srli r x = Inl (AssertionError OperandRange)
       \<and> enc_c_srai r x = Inl (AssertionError OperandRange)
       \<and> enc_c_andi r x = Inl (AssertionError OperandRange)
       \<and> enc_c_sub r y = Inl (AssertionError OperandRange)
       \<and> enc_c_sub y r = Inl (AssertionError OperandRange)
       \<and> enc_c_xor r y = Inl (AssertionError OperandRange)
       \<and> enc_c_xor y r = Inl (AssertionError OperandRange)
       \<and> enc_c_or r y = Inl (AssertionError OperandRange)
       \<and> enc_c_or y r = Inl (AssertionError OperandRange)
       \<and> enc_c_and r y = Inl (AssertionError OperandRange)
       \<and> enc_c_and y r = Inl (AssertionError OperandRange)
       \<and> enc_c_beqz r x = Inl (AssertionError OperandRange)
       \<and> enc_c_bnez r x = Inl (AssertionError OperandRange))
   \<and> (\<not> (1 \<le> sh \<and> sh \<le> 31) \<longrightarrow>
         enc_c_srli r sh = Inl (AssertionError OperandRange)
       \<and> enc_c_srai r sh = Inl (AssertionError OperandRange)
       \<and> enc_c_slli rd sh = Inl (AssertionError OperandRange))
   \<and> (enc_c_addi4spn r x = Inr w \<longrightarrow> 8 \<le> r \<and> r \<le> 15 \<and> 4 \<le> x \<and> x \<le> 1020 \<and> x mod 4 = 0)
   \<and> (enc_c_lw r y u = Inr w \<longrightarrow> 8 \<le> r \<and> r \<le> 15 \<and> 8 \<le> y \<and> y \<le> 15 \<and> 0 \<le> u \<and> u \<le> 124 \<and> u mod 4 = 0)
   \<and> (enc_c_sw r y u = Inr w \<longrightarrow> 8 \<le> r \<and> r \<le> 15 \<and> 8 \<le> y \<and> y \<le> 15 \<and> 0 \<le> u \<and> u \<le> 124 \<and> u mod 4 = 0)
   \<and> (enc_c_addi rd x = Inr w \<longrightarrow> 0 \<le> rd \<and> rd \<le> 31 \<and> - 32 \<le> x \<and> x \<le> 31)
   \<and> (enc_c_jal x = Inr w \<longrightarrow> - 2048 \<le> x \<and> x \<le> 2046 \<and> x mod 2 = 0)
   \<and> (enc_c_li rd x = Inr w \<longrightarrow> 1 \<le> rd \<and> rd \<le> 31 \<and> - 32 \<le> x \<and> x \<le> 31)
   \<and> (enc_c_lui rd x = Inr w \<longrightarrow> 1 \<le> rd \<and> rd \<le> 31 \<and> rd \<noteq> 2 \<and> - 32 \<le> x \<and> x \<le> 31 \<and> x \<noteq> 0)
   \<and> (enc_c_addi16sp x = Inr w \<longrightarrow> - 512 \<le> x \<and> x \<le> 496 \<and> x \<noteq> 0 \<and> x mod 16 = 0)
   \<and> (enc_c_srli r x = Inr w \<longrightarrow> 8 \<le> r \<and> r \<le> 15 \<and> 1 \<le> x \<and> x \<le> 31)
   \<and> (enc_c_srai r x = Inr w \<longrightarrow> 8 \<le> r \<and> r \<le> 15 \<and> 1 \<le> x \<and> x \<le> 31)
   \<and> (enc_c_andi r x = Inr w \<longrightarrow> 8 \<le> r \<and> r \<le> 15 \<and> - 32 \<le> x \<and> x \<le> 31)
   \<and> (enc_c_sub r y = Inr w \<longrightarrow> 8 \<le> r \<and> r \<le> 15 \<and> 8 \<le> y \<and> y \<le> 15)
   \<and> (enc_c_xor r y = Inr w \<longrightarrow> 8 \<le> r \<and> r \<le> 15 \<and> 8 \<le> y \<and> y \<le> 15)
   \<and> (enc_c_or r y = Inr w \<longrightarrow> 8 \<le> r \<and> r \<le> 15 \<and> 8 \<le> y \<and> y \<le> 15)
   \<and> (enc_c_and r y = Inr w \<longrightarrow> 8 \<le> r \<and> r \<le> 15 \<and> 8 \<le> y \<and> y \<le> 15)
   \<and> (enc_c_j x = Inr w \<longrightarrow> - 2048 \<le> x \<and> x \<le> 2046 \<and> x mod 2 = 0)
   \<and> (enc_c_beqz r x = Inr w \<longrightarrow> 8 \<le> r \<and> r \<le> 15 \<and> - 256 \<le> x \<and> x \<le> 254 \<and> x mod 2 = 0)
   \<and> (enc_c_bnez r x = Inr w \<longrightarrow> 8 \<le> r \<and> r \<le> 15 \<and> - 256 \<le> x \<and> x \<le> 254 \<and> x mod 2 = 0)
   \<and> (enc_c_slli rd x = Inr w \<longrightarrow> 1 \<le> rd \<and> rd \<le> 31 \<and> 1 \<le> x \<and> x \<le> 31)
   \<and> (enc_c_lwsp rd u = Inr w \<longrightarrow> 1 \<le> rd \<and> rd \<le> 31 \<and> 0 \<le> u \<and> u \<le> 252 \<and> u mod 4 = 0)
   \<and> (enc_c_jr rd = Inr w \<longrightarrow> 1 \<le> rd \<and> rd \<le> 31)
   \<and> (enc_c_mv rd y = Inr w \<longrightarrow> 1 \<le> rd \<and> rd \<le> 31 \<and> 1 \<le> y \<and> y \<le> 31)
   \<and> (enc_c_jalr rd = Inr w \<longrightarrow> 1 \<le> rd \<and> rd \<le> 31)
   \<and> (enc_c_add rd y = Inr w \<longrightarrow> 1 \<le> rd \<and> rd \<le> 31 \<and> 1 \<le> y \<and> y \<le> 31)
   \<and> (enc_c_swsp rd u = Inr w \<longrightarrow> 0 \<le> rd \<and> rd \<le> 31 \<and> 0 \<le> u \<and> u \<le> 252 \<and> u mod 4 = 0)
   \<and> make_i_shift_encoder enc f3 f7 rd rs1 sh = make_i_shift_encoder enc f3 f7 rd rs1 (sh mod 32)"
proof -
  have a: "compress_reg reg =
     (if 8 \<le> reg \<and> reg \<le> 15 then Inr (reg - 8) else Inl (AssertionError (CompressedRegister reg)))"
    by (rule compress_reg_eq)
  have b: "(\<not> (8 \<le> r \<and> r \<le> 15) \<longrightarrow>
         enc_c_addi4spn r x = Inl (AssertionError OperandRange)
       \<and> enc_c_lw r y u = Inl (AssertionError OperandRange)
       \<and> enc_c_lw y r u = Inl (AssertionError OperandRange)
       \<and> enc_c_sw r y u = Inl (AssertionError OperandRange)
       \<and> enc_c_sw y r u = Inl (AssertionError OperandRange)
       \<and> enc_c_srli r x = Inl (AssertionError OperandRange)
       \<and> enc_c_srai r x = Inl (AssertionError OperandRange)
       \<and> enc_c_andi r x = Inl (AssertionError OperandRange)
       \<and> enc_c_sub r y = Inl (AssertionError OperandRange)
       \<and> enc_c_sub y r = Inl (AssertionError OperandRange)
       \<and> enc_c_xor r y = Inl (AssertionError OperandRange)
       \<and> enc_c_xor y r = Inl (AssertionError OperandRange)
       \<and> enc_c_or r y = Inl (AssertionError OperandRange)
       \<and> enc_c_or y r = Inl (AssertionError OperandRange)
       \<and> enc_c_and r y = Inl (AssertionError OperandRange)
       \<and> enc_c_and y r = Inl (AssertionError OperandRange)
       \<and> enc_c_beqz r x = Inl (AssertionError OperandRange)
       \<and> enc_c_bnez r x = Inl (AssertionError OperandRange))"
    by (auto simp add: enc_defs check_def)
  have c: "(\<not> (1 \<le> sh \<and> sh \<le> 31) \<longrightarrow>
         enc_c_srli r sh = Inl (AssertionError OperandRange)
       \<and> enc_c_srai r sh = Inl (AssertionError OperandRange)
       \<and> enc_c_slli rd sh = Inl (AssertionError OperandRange))"
    by (auto simp add: enc_defs check_def)
  have de: "(enc_c_addi4spn r x = Inr w \<longrightarrow> 8 \<le> r \<and> r \<le> 15 \<and> 4 \<le> x \<and> x \<le> 1020 \<and> x mod 4 = 0)
   \<and> (enc_c_lw r y u = Inr w \<longrightarrow> 8 \<le> r \<and> r \<le> 15 \<and> 8 \<le> y \<and> y \<le> 15 \<and> 0 \<le> u \<and> u \<le> 124 \<and> u mod 4 = 0)
   \<and> (enc_c_sw r y u = Inr w \<longrightarrow> 8 \<le> r \<and> r \<le> 15 \<and> 8 \<le> y \<and> y \<le> 15 \<and> 0 \<le> u \<and> u \<le> 124 \<and> u mod 4 = 0)
   \<and> (enc_c_addi rd x = Inr w \<longrightarrow> 0 \<le> rd \<and> rd \<le> 31 \<and> - 32 \<le> x \<and> x \<le> 31)
   \<and> (enc_c_jal x = Inr w \<longrightarrow> - 2048 \<le> x \<and> x \<le> 2046 \<and> x mod 2 = 0)
   \<and> (enc_c_li rd x = Inr w \<longrightarrow> 1 \<le> rd \<and> rd \<le> 31 \<and> - 32 \<le> x \<and> x \<le> 31)
   \<and> (enc_c_lui rd x = Inr w \<longrightarrow> 1 \<le> rd \<and> rd \<le> 31 \<and> rd \<noteq> 2 \<and> - 32 \<le> x \<and> x \<le> 31 \<and> x \<noteq> 0)
   \<and> (enc_c_addi16sp x = Inr w \<longrightarrow> - 512 \<le> x \<and> x \<le> 496 \<and> x \<noteq> 0 \<and> x mod 16 = 0)
   \<and> (enc_c_srli r x = Inr w \<longrightarrow> 8 \<le> r \<and> r \<le> 15 \<and> 1 \<le> x \<and> x \<le> 31)
   \<and> (enc_c_srai r x = Inr w \<longrightarrow> 8 \<le> r \<and> r \<le> 15 \<and> 1 \<le> x \<and> x \<le> 31)
   \<and> (enc_c_andi r x = Inr w \<longrightarrow> 8 \<le> r \<and> r \<le> 15 \<and> - 32 \<le> x \<and> x \<le> 31)
   \<and> (enc_c_sub r y = Inr w \<longrightarrow> 8 \<le> r \<and> r \<le> 15 \<and> 8 \<le> y \<and> y \<le> 15)
   \<and> (enc_c_xor r y = Inr w \<longrightarrow> 8 \<le> r \<and> r \<le> 15 \<and> 8 \<le> y \<and> y \<le> 15)
   \<and> (enc_c_or r y = Inr w \<longrightarrow> 8 \<le> r \<and> r \<le> 15 \<and> 8 \<le> y \<and> y \<le> 15)
   \<and> (enc_c_and r y = Inr w \<longrightarrow> 8 \<le> r \<and> r \<le> 15 \<and> 8 \<le> y \<and> y \<le> 15)
   \<and> (enc_c_j x = Inr w \<longrightarrow> - 2048 \<le> x \<and> x \<le> 2046 \<and> x mod 2 = 0)
   \<and> (enc_c_beqz r x = Inr w \<longrightarrow> 8 \<le> r \<and> r \<le> 15 \<and> - 256 \<le> x \<and> x \<le> 254 \<and> x mod 2 = 0)
   \<and> (enc_c_bnez r x = Inr w \<longrightarrow> 8 \<le> r \<and> r \<le> 15 \<and> - 256 \<le> x \<and> x \<le> 254 \<and> x mod 2 = 0)
   \<and> (enc_c_slli rd x = Inr w \<longrightarrow> 1 \<le> rd \<and> rd \<le> 31 \<and> 1 \<le> x \<and> x \<le> 31)
   \<and> (enc_c_lwsp rd u = Inr w \<longrightarrow> 1 \<le> rd \<and> rd \<le> 31 \<and> 0 \<le> u \<and> u \<le> 252 \<and> u mod 4 = 0)
   \<and> (enc_c_jr rd = Inr w \<longrightarrow> 1 \<le> rd \<and> rd \<le> 31)
   \<and> (enc_c_mv rd y = Inr w \<longrightarrow> 1 \<le> rd \<and> rd \<le> 31 \<and> 1 \<le> y \<and> y \<le> 31)
   \<and> (enc_c_jalr rd = Inr w \<longrightarrow> 1 \<le> rd \<and> rd \<le> 31)
   \<and> (enc_c_add rd y = Inr w \<longrightarrow> 1 \<le> rd \<and> rd \<le> 31 \<and> 1 \<le> y \<and> y \<le> 31)
   \<and> (enc_c_swsp rd u = Inr w \<longrightarrow> 0 \<le> rd \<and> rd \<le> 31 \<and> 0 \<le> u \<and> u \<le> 252 \<and> u mod 4 = 0)
   \<and> make_i_shift_encoder enc f3 f7 rd rs1 sh = make_i_shift_encoder enc f3 f7 rd rs1 (sh mod 32)"
    by (intro conjI impI shift_encoder_masks) (simp_all add: enc_defs check_def split: if_splits)
  show ?thesis by (rule conjI [OF a conjI [OF b conjI [OF c de]]])
qed


theorem encoders_reject_or_mask_witness:
  "compress_reg 16 = Inl (AssertionError (CompressedRegister 16))
   \<and> enc_c_sub 7 9 = Inl (AssertionError OperandRange)
   \<and> enc_c_lw 9 7 4 = Inl (AssertionError OperandRange)
   \<and> enc_c_srli 7 32 = Inl (AssertionError OperandRange)
   \<and> enc_c_slli 1 32 = Inl (AssertionError OperandRange)
   \<and> make_i_shift_encoder enc_i_spec 1 0 1 2 32 = make_i_shift_encoder enc_i_spec 1 0 1 2 0"
  using encoders_reject_or_mask [where reg = 16 and r = 7 and y = 9 and u = 4 and sh = 32
      and rd = 1 and enc = enc_i_spec and ?f3.0 = 1 and ?f7.0 = 0 and ?rs1.0 = 2]
  by simp

subsection \<open>Store-conditional\<close>

lemma list_get_in_range:
  "0 \<le> i \<Longrightarrow> i < int (length xs) \<Longrightarrow> list_get xs i = Inr (xs ! nat i)"
  by (simp add: list_get_def list_index_def)

lemma list_set_in_range:
  "0 \<le> i \<Longrightarrow> i < int (length xs) \<Longrightarrow> list_set xs i v = Inr (xs[nat i := v])"
  by (simp add: list_set_def list_index_def)

lemmas state_defs = check_reservation_def clear_reservation_def queue_expected_outputs_def
  increment_cycle_counter_def increment_instret_counter_def update_program_counter_def
  advance_register_state_def

lemma execute_sc_success:
  assumes "length (register_file_previous st) = 32" "length (register_file_current st) = 32"
    and "0 \<le> rd" "rd < 32" "0 \<le> rs1" "rs1 < 32" "0 \<le> rs2" "rs2 < 32"
    and "enc rd rs2 rs1 = Inr instr"
    and "reservation st = Some ((register_file_previous st ! nat rs1) AND NOT 3)"
  shows "execute_sc enc cfg st mem rd rs1 rs2 =
    Inr (True, instr,
      st\<lparr>reservation := None,
         memory_write_address_expected_queue :=
           memory_write_address_expected_queue st @ [(register_file_previous st ! nat rs1) AND NOT 3],
         memory_write_data_expected_queue :=
           memory_write_data_expected_queue st @ [register_file_previous st ! nat rs2],
         register_file_current :=
           (if rd \<noteq> 0 then (register_file_current st)[nat rd := 0] else register_file_current st),
         register_file_current_expected_queue :=
           register_file_current_expected_queue st @
             [if rd \<noteq> 0 then (register_file_current st)[nat rd := 0] else register_file_current st],
         program_counter_expected_values_queue :=
           program_counter_expected_values_queue st @ [(program_counter_current st + 4) AND MASK32],
         cycle_counter := cycle_counter st + 1,
         instret_counter := instret_counter st + 1,
         program_counter_current := (program_counter_current st + 4) AND MASK32,
         register_file_previous :=
           (if rd \<noteq> 0 then (register_file_current st)[nat rd := 0] else register_file_current st)\<rparr>,
      write_word cfg mem ((register_file_previous st ! nat rs1) AND NOT 3)
        (register_file_previous st ! nat rs2))"
  using assms
  by (simp add: execute_sc_def list_get_in_range list_set_in_range state_defs Let_def MASK32_def)

lemma execute_sc_failure:
  assumes "length (register_file_previous st) = 32" "length (register_file_current st) = 32"
    and "0 \<le> rd" "rd < 32" "0 \<le> rs1" "rs1 < 32"
    and "enc rd rs2 rs1 = Inr instr"
    and "reservation st \<noteq> Some ((register_file_previous st ! nat rs1) AND NOT 3)"
  shows "execute_sc enc cfg st mem rd rs1 rs2 =
    Inr (False, instr,
      st\<lparr>reservation := None,
         register_file_current :=
           (if rd \<noteq> 0 then (register_file_current st)[nat rd := 1] else register_file_current st),
         register_file_current_expected_queue :=
           register_file_current_expected_queue st @
             [if rd \<noteq> 0 then (register_file_current st)[nat rd := 1] else register_file_current st],
         program_counter_expected_values_queue :=
           program_counter_expected_values_queue st @ [(program_counter_current st + 4) AND MASK32],
         cycle_counter := cycle_counter st + 1,
         instret_counter := instret_counter st + 1,
         program_counter_current := (program_counter_current st + 4) AND MASK32,
         register_file_previous :=
           (if rd \<noteq> 0 then (register_file_current st)[nat rd := 1] else register_file_current st)\<rparr>,
      mem)"
  using assms
  by (simp add: execute_sc_def list_get_in_range list_set_in_range state_defs Let_def MASK32_def)

lemma execute_sc_no_reservation:
  assumes "reservation st = None" and "execute_sc enc cfg st mem rd rs1 rs2 = Inr r"
  shows "\<not> fst r"
  using assms
  by (auto simp add: execute_sc_def state_defs Let_def split: sum.splits if_splits prod.splits)


text \<open>
  Claim C2. Every execution of \<open>execute_sc\<close> with register indices in range returns,
  and: the store succeeds iff the reservation of the tracker is the word-aligned address
  (the value of \<open>rs1\<close> with its two low bits cleared); on success \<open>rd\<close> receives 0,
  exactly one memory-write expectation (that address, the value of \<open>rs2\<close>) is queued
  and the word is written to the memory model; on failure \<open>rd\<close> receives 1 and the
  memory-write queues and the memory model are unchanged; a write to \<open>x0\<close> is
  discarded; in both cases the reservation is cleared, so that every following SC.W
  fails, the one to the same address in particular, and queues no memory write.
\<close>

theorem execute_sc_probe_and_clear:
  assumes len: "length (register_file_previous st) = 32" "length (register_file_current st) = 32"
    and idx: "0 \<le> rd" "rd < 32" "0 \<le> rs1" "rs1 < 32" "0 \<le> rs2" "rs2 < 32"
    and enc: "enc rd rs2 rs1 = Inr instr"
  defines "address \<equiv> (register_file_previous st ! nat rs1) AND NOT 3"
    and "write_data \<equiv> register_file_previous st ! nat rs2"
  shows "\<exists>st' mem'.
      execute_sc enc cfg st mem rd rs1 rs2 = Inr (reservation st = Some address, instr, st', mem')
    \<and> address = register_file_previous st ! nat rs1 - (register_file_previous st ! nat rs1) mod 4
    \<and> (reservation st = Some address \<longrightarrow>
          memory_write_address_expected_queue st' = memory_write_address_expected_queue st @ [address]
        \<and> memory_write_data_expected_queue st' = memory_write_data_expected_queue st @ [write_data]
        \<and> mem' = write_word cfg mem address write_data
        \<and> (rd \<noteq> 0 \<longrightarrow> register_file_current st' ! nat rd = 0))
    \<and> (reservation st \<noteq> Some address \<longrightarrow>
          memory_write_address_expected_queue st' = memory_write_address_expected_queue st
        \<and> memory_write_data_expected_queue st' = memory_write_data_expected_queue st
        \<and> mem' = mem
        \<and> (rd \<noteq> 0 \<longrightarrow> register_file_current st' ! nat rd = 1))
    \<and> (rd = 0 \<longrightarrow> register_file_current st' = register_file_current st)
    \<and> reservation st' = None
    \<and> (\<forall>enc2 rd2 rs1' rs2' r.
          execute_sc enc2 cfg st' mem' rd2 rs1' rs2' = Inr r \<longrightarrow> \<not> fst r)
    \<and> (\<exists>st'' mem''. execute_sc enc cfg st' mem' rd rs1 rs2 = Inr (False, instr, st'', mem'')
          \<and> memory_write_address_expected_queue st'' = memory_write_address_expected_queue st'
          \<and> memory_write_data_expected_queue st'' = memory_write_data_expected_queue st'
          \<and> mem'' = mem')"
proof -
  have al: "address = register_file_previous st ! nat rs1 - (register_file_previous st ! nat rs1) mod 4"
    unfolding address_def by (rule and_not_3)
  from idx len have rdn: "nat rd < length (register_file_current st)" by simp
  show ?thesis
  proof (cases "reservation st = Some address")
    case True
    define st' where "st' = st\<lparr>reservation := None,
         memory_write_address_expected_queue :=
           memory_write_address_expected_queue st @ [address],
         memory_write_data_expected_queue :=
           memory_write_data_expected_queue st @ [write_data],
         register_file_current :=
           (if rd \<noteq> 0 then (register_file_current st)[nat rd := 0] else register_file_current st),
         register_file_current_expected_queue :=
           register_file_current_expected_queue st @
             [if rd \<noteq> 0 then (register_file_current st)[nat rd := 0] else register_file_current st],
         program_counter_expected_values_queue :=
           program_counter_expected_values_queue st @ [(program_counter_current st + 4) AND MASK32],
         cycle_counter := cycle_counter st + 1,
         instret_counter := instret_counter st + 1,
         program_counter_current := (program_counter_current st + 4) AND MASK32,
         register_file_previous :=
           (if rd \<noteq> 0 then (register_file_current st)[nat rd := 0] else register_file_current st)\<rparr>"
    define mem' where "mem' = write_word cfg mem address write_data"
    have run: "execute_sc enc cfg st mem rd rs1 rs2 = Inr (True, instr, st', mem')"
      unfolding st'_def mem'_def address_def write_data_def
      using len idx enc True [unfolded address_def]
      by (rule execute_sc_success [where enc = enc and rd = rd and ?rs1.0 = rs1 and ?rs2.0 = rs2])
    have r': "reservation st' = None" by (simp add: st'_def)
    have len': "length (register_file_previous st') = 32" "length (register_file_current st') = 32"
      using len by (simp_all add: st'_def)
    have ne: "reservation st' \<noteq> Some ((register_file_previous st' ! nat rs1) AND NOT 3)"
      by (simp add: r')
    note nxt = execute_sc_failure [where st = st' and enc = enc and rd = rd and ?rs1.0 = rs1
      and ?rs2.0 = rs2 and instr = instr and cfg = cfg and mem = mem', OF len' idx(1-4) enc ne]
    have following: "\<forall>enc2 rd2 rs1' rs2' r.
          execute_sc enc2 cfg st' mem' rd2 rs1' rs2' = Inr r \<longrightarrow> \<not> fst r"
      using execute_sc_no_reservation [OF r'] by blast
    have upd: "rd \<noteq> 0 \<longrightarrow> register_file_current st' ! nat rd = 0"
      and keep: "rd = 0 \<longrightarrow> register_file_current st' = register_file_current st"
      and qa: "memory_write_address_expected_queue st' =
                 memory_write_address_expected_queue st @ [address]"
      and qd: "memory_write_data_expected_queue st' =
                 memory_write_data_expected_queue st @ [write_data]"
      using rdn by (simp_all add: st'_def)
    have nx: "\<exists>st'' mem''. execute_sc enc cfg st' mem' rd rs1 rs2 = Inr (False, instr, st'', mem'')
          \<and> memory_write_address_expected_queue st'' = memory_write_address_expected_queue st'
          \<and> memory_write_data_expected_queue st'' = memory_write_data_expected_queue st'
          \<and> mem'' = mem'"
      by (intro exI conjI, rule nxt) simp_all
    show ?thesis
    proof (rule exI [of _ st'], rule exI [of _ mem'], intro conjI)
      show "execute_sc enc cfg st mem rd rs1 rs2 =
              Inr (reservation st = Some address, instr, st', mem')"
        using run True by simp
      show "reservation st = Some address \<longrightarrow>
          memory_write_address_expected_queue st' = memory_write_address_expected_queue st @ [address]
        \<and> memory_write_data_expected_queue st' = memory_write_data_expected_queue st @ [write_data]
        \<and> mem' = write_word cfg mem address write_data
        \<and> (rd \<noteq> 0 \<longrightarrow> register_file_current st' ! nat rd = 0)"
        using qa qd upd mem'_def by simp
      show "reservation st \<noteq> Some address \<longrightarrow>
          memory_write_address_expected_queue st' = memory_write_address_expected_queue st
        \<and> memory_write_data_expected_queue st' = memory_write_data_expected_queue st
        \<and> mem' = mem
        \<and> (rd \<noteq> 0 \<longrightarrow> register_file_current st' ! nat rd = 1)"
        using True by simp
    qed (fact al keep r' following nx)+
  next
    case False
    define st' where "st' = st\<lparr>reservation := None,
         register_file_current :=
           (if rd \<noteq> 0 then (register_file_current st)[nat rd := 1] else register_file_current st),
         register_file_current_expected_queue :=
           register_file_current_expected_queue st @
             [if rd \<noteq> 0 then (register_file_current st)[nat rd := 1] else register_file_current st],
         program_counter_expected_values_queue :=
           program_counter_expected_values_queue st @ [(program_counter_current st + 4) AND MASK32],
         cycle_counter := cycle_counter st + 1,
         instret_counter := instret_counter st + 1,
         program_counter_current := (program_counter_current st + 4) AND MASK32,
         register_file_previous :=
           (if rd \<noteq> 0 then (register_file_current st)[nat rd := 1] else register_file_current st)\<rparr>"
    have run: "execute_sc enc cfg st mem rd rs1 rs2 = Inr (False, instr, st', mem)"
      unfolding st'_def
      using len idx(1-4) enc False [unfolded address_def]
      by (rule execute_sc_failure [where enc = enc and rd = rd and ?rs1.0 = rs1 and ?rs2.0 = rs2])
    have r': "reservation st' = None" by (simp add: st'_def)
    have len': "length (register_file_previous st') = 32" "length (register_file_current st') = 32"
      using len by (simp_all add: st'_def)
    have ne: "reservation st' \<noteq> Some ((register_file_previous st' ! nat rs1) AND NOT 3)"
      by (simp add: r')
    note nxt = execute_sc_failure [where st = st' and enc = enc and rd = rd and ?rs1.0 = rs1
      and ?rs2.0 = rs2 and instr = instr and cfg = cfg and mem = mem, OF len' idx(1-4) enc ne]
    have following: "\<forall>enc2 rd2 rs1' rs2' r.
          execute_sc enc2 cfg st' mem rd2 rs1' rs2' = Inr r \<longrightarrow> \<not> fst r"
      using execute_sc_no_reservation [OF r'] by blast
    have upd: "rd \<noteq> 0 \<longrightarrow> register_file_current st' ! nat rd = 1"
      and keep: "rd = 0 \<longrightarrow> register_file_current st' = register_file_current st"
      and qa: "memory_write_address_expected_queue st' = memory_write_address_expected_queue st"
      and qd: "memory_write_data_expected_queue st' = memory_write_data_expected_queue st"
      using rdn by (simp_all add: st'_def)
    have nx: "\<exists>st'' mem''. execute_sc enc cfg st' mem rd rs1 rs2 = Inr (False, instr, st'', mem'')
          \<and> memory_write_address_expected_queue st'' = memory_write_address_expected_queue st'
          \<and> memory_write_data_expected_queue st'' = memory_write_data_expected_queue st'
          \<and> mem'' = mem"
      by (intro exI conjI, rule nxt) simp_all
    show ?thesis
    proof (rule exI [of _ st'], rule exI [of _ mem], intro conjI)
      show "execute_sc enc cfg st mem rd rs1 rs2 =
              Inr (reservation st = Some address, instr, st', mem)"
        using run False by simp
      show "reservation st = Some address \<longrightarrow>
          memory_write_address_expected_queue st' = memory_write_address_expected_queue st @ [address]
        \<and> memory_write_data_expected_queue st' = memory_write_data_expected_queue st @ [write_data]
        \<and> mem = write_word cfg mem address write_data
        \<and> (rd \<noteq> 0 \<longrightarrow> register_file_current st' ! nat rd = 0)"
        using False by simp
      show "reservation st \<noteq> Some address \<longrightarrow>
          memory_write_address_expected_queue st' = memory_write_address_expected_queue st
        \<and> memory_write_data_expected_queue st' = memory_write_data_expected_queue st
        \<and> mem = mem
        \<and> (rd \<noteq> 0 \<longrightarrow> register_file_current st' ! nat rd = 1)"
        using qa qd upd by simp
    qed (fact al keep r' following nx)+
  qed
qed


theorem execute_sc_probe_and_clear_witness:
  "length (register_file_previous state0) = 32 \<and> length (register_file_current state0) = 32
   \<and> enc_sc_w_spec 6 12 10 = Inr 0x18C5232F
   \<and> (\<exists>st' mem'.
         execute_sc enc_sc_w_spec cfg0 state0 empty_memory 6 10 12 = Inr (True, 0x18C5232F, st', mem')
       \<and> memory_write_address_expected_queue st' = [0x100]
       \<and> memory_write_data_expected_queue st' = [0xDEADBEEF]
       \<and> mem' = write_word cfg0 empty_memory 0x100 0xDEADBEEF
       \<and> register_file_current st' ! 6 = 0
       \<and> reservation st' = None
       \<and> (\<exists>st'' mem''.
             execute_sc enc_sc_w_spec cfg0 st' mem' 6 10 12 = Inr (False, 0x18C5232F, st'', mem'')
           \<and> memory_write_address_expected_queue st'' = [0x100]
           \<and> memory_write_data_expected_queue st'' = [0xDEADBEEF]
           \<and> mem'' = mem'))"
proof -
  have len: "length (register_file_previous state0) = 32" "length (register_file_current state0) = 32"
    by (simp_all add: state0_def)
  have idx: "0 \<le> (6::int)" "(6::int) < 32" "0 \<le> (10::int)" "(10::int) < 32"
    "0 \<le> (12::int)" "(12::int) < 32" by simp_all
  have enc: "enc_sc_w_spec 6 12 10 = Inr 0x18C5232F"
    by (simp add: enc_sc_w_spec_def)
  have a: "(register_file_previous state0 ! nat 10) AND NOT 3 = 0x100"
    by (simp add: state0_def and_not_3)
  have d: "register_file_previous state0 ! nat 12 = 0xDEADBEEF"
    by (simp add: state0_def)
  have r: "reservation state0 = Some 0x100" by (simp add: state0_def)
  have q: "memory_write_address_expected_queue state0 = []"
    "memory_write_data_expected_queue state0 = []" by (simp_all add: state0_def)
  from execute_sc_probe_and_clear [where st = state0 and enc = enc_sc_w_spec and rd = 6
      and ?rs1.0 = 10 and ?rs2.0 = 12 and instr = "0x18C5232F" and cfg = cfg0
      and mem = empty_memory, OF len idx enc]
  obtain st' mem' where
    1: "execute_sc enc_sc_w_spec cfg0 state0 empty_memory 6 10 12
          = Inr (reservation state0 = Some 0x100, 0x18C5232F, st', mem')"
    and 2: "reservation state0 = Some 0x100 \<longrightarrow>
          memory_write_address_expected_queue st' = memory_write_address_expected_queue state0 @ [0x100]
        \<and> memory_write_data_expected_queue st' = memory_write_data_expected_queue state0 @ [0xDEADBEEF]
        \<and> mem' = write_word cfg0 empty_memory 0x100 0xDEADBEEF
        \<and> ((6::int) \<noteq> 0 \<longrightarrow> register_file_current st' ! nat 6 = 0)"
    and 3: "reservation st' = None"
    and 4: "\<exists>st'' mem''. execute_sc enc_sc_w_spec cfg0 st' mem' 6 10 12
              = Inr (False, 0x18C5232F, st'', mem'')
          \<and> memory_write_address_expected_queue st'' = memory_write_address_expected_queue st'
          \<and> memory_write_data_expected_queue st'' = memory_write_data_expected_queue st'
          \<and> mem'' = mem'"
    unfolding a d by blast
  from 2 r q have 5: "memory_write_address_expected_queue st' = [0x100]"
    "memory_write_data_expected_queue st' = [0xDEADBEEF]"
    "mem' = write_word cfg0 empty_memory 0x100 0xDEADBEEF"
    "register_file_current st' ! 6 = 0" by simp_all
  from 1 r have 6: "execute_sc enc_sc_w_spec cfg0 state0 empty_memory 6 10 12
          = Inr (True, 0x18C5232F, st', mem')" by simp
  from 4 have 7: "\<exists>st'' mem''.
             execute_sc enc_sc_w_spec cfg0 st' mem' 6 10 12 = Inr (False, 0x18C5232F, st'', mem'')
           \<and> memory_write_address_expected_queue st'' = [0x100]
           \<and> memory_write_data_expected_queue st'' = [0xDEADBEEF]
           \<and> mem'' = mem'"
    unfolding 5 .
  from len enc 6 5 3 7 show ?thesis by blast
qed

end
